theory Spec2Isabelle
  imports Main "HOL-Library.Word" "HOL-Library.Monad_Syntax"
begin

section \<open>CFF2 table subsetting (hb-subset-cff2.cc)\<close>

text \<open>
  A shallow embedding of HarfBuzz's CFF2 subsetter: the three dict operator serializers,
  the subset plan (\<open>cff2_subset_plan::create\<close>), the table writer (\<open>_write_cff2\<close>)
  and the driver (\<open>_hb_subset_cff2\<close>).

  Sizes, offsets and counts are C \<open>unsigned int\<close>s in the source; they are natural
  numbers here, so the sums of the plan are taken not to wrap around at \<open>2 ^ 32\<close> (no
  table is that large). Bytes are 8-bit words. A value stored into a fixed-width field
  keeps its low-order bytes, as the big-endian integer types of the source do. The
  \<open>start_embed\<close> calls of the writer return the cursor, which is not null, so their
  null tests are left out.
\<close>

subsection \<open>Bytes and big-endian fields\<close>

type_synonym byte = "8 word"

text \<open>
  \<open>be_bytes n v\<close>: the \<open>n\<close>-byte big-endian field holding \<open>v\<close> (\<open>HBUINT8\<close>,
  \<open>HBUINT16\<close>, \<open>HBUINT32\<close> and the offsets of an index); \<open>be_val\<close> reads one.
\<close>

fun be_bytes :: "nat \<Rightarrow> nat \<Rightarrow> byte list" where
  "be_bytes 0 v = []"
| "be_bytes (Suc n) v = be_bytes n (v div 256) @ [of_nat v]"

definition be_val :: "byte list \<Rightarrow> nat" where
  "be_val bs = foldl (\<lambda>a b. a * 256 + unat b) 0 bs"

subsection \<open>The serialization context\<close>

text \<open>
  Modelled from the spec: \<open>hb_serialize_context_t\<close> is declared in
  hb-open-type-private.hh, which is not under src/. The spec describes it as a single
  byte sink with a monotonically advancing cursor over a buffer of the planned size,
  whose allocation fails when the write would exceed that size. \<open>written\<close> are the
  bytes between \<open>start\<close> and \<open>head\<close>, \<open>room\<close> is \<open>end - start\<close>.
\<close>

record hb_serialize_context_t =
  written :: "byte list"
  room :: nat

definition head :: "hb_serialize_context_t \<Rightarrow> nat" where
  "head c = length (written c)"

text \<open>
  \<open>embed bs\<close> is \<open>allocate_size (length bs)\<close> followed by the stores that fill the
  allocated bytes with \<open>bs\<close>; \<open>None\<close> is the null pointer of a failed allocation.
\<close>

definition embed :: "byte list \<Rightarrow> hb_serialize_context_t \<Rightarrow> hb_serialize_context_t option" where
  "embed bs c =
     (if room c < head c + length bs then None
      else Some (c\<lparr>written := written c @ bs\<rparr>))"

subsection \<open>Operators\<close>

text \<open>
  Modelled from the spec: the operator codes and \<open>OpCode_Size\<close> are declared in the
  CFF interpreter headers, which are not under src/. The values are those of the CFF2
  format; a two-byte (escaped) operator is numbered from 256.
\<close>

type_synonym OpCode = nat

definition OpCode_CharStrings :: OpCode where "OpCode_CharStrings = 17"
definition OpCode_Private :: OpCode where "OpCode_Private = 18"
definition OpCode_Subrs :: OpCode where "OpCode_Subrs = 19"
definition OpCode_vstore :: OpCode where "OpCode_vstore = 24"
definition OpCode_shortint :: OpCode where "OpCode_shortint = 28"
definition OpCode_longint :: OpCode where "OpCode_longint = 29"
definition OpCode_escape :: OpCode where "OpCode_escape = 12"
definition OpCode_ESC_Base :: OpCode where "OpCode_ESC_Base = 256"
definition OpCode_FDArray :: OpCode where "OpCode_FDArray = OpCode_ESC_Base + 36"
definition OpCode_FDSelect :: OpCode where "OpCode_FDSelect = OpCode_ESC_Base + 37"

definition Is_OpCode_ESC :: "OpCode \<Rightarrow> bool" where
  "Is_OpCode_ESC op = (OpCode_ESC_Base \<le> op)"

definition OpCode_Size :: "OpCode \<Rightarrow> nat" where
  "OpCode_Size op = (if Is_OpCode_ESC op then 2 else 1)"

text \<open>The bytes of an operator code: the escape byte first for a two-byte operator.\<close>

definition opcode_bytes :: "OpCode \<Rightarrow> byte list" where
  "opcode_bytes op =
     (if Is_OpCode_ESC op then [of_nat OpCode_escape, of_nat (op - OpCode_ESC_Base)]
      else [of_nat op])"

text \<open>\<open>OpStr\<close>: an operator of a parsed dict with the bytes it had in the source.\<close>

record OpStr =
  op :: OpCode
  str :: "byte list"

record TableInfo =
  offset :: nat
  size' :: nat

record CFF2SubTableOffsets =
  topDictSize :: nat
  varStoreOffset :: nat
  FDSelectInfo :: TableInfo
  FDArrayOffset :: nat
  FDArrayOffSize :: nat
  charStringsOffset :: nat
  charStringsOffSize :: nat
  privateDictsOffset :: nat

text \<open>
  Modelled from the spec: the fixed-width writers \<open>serialize_int2\<close>,
  \<open>serialize_int4\<close>, \<open>serialize_offset2_op\<close>, \<open>serialize_offset4_op\<close> and
  \<open>copy_opstr\<close> are defined in the CFF common headers, which are not under src/. The
  spec: a fixed-width literal (16 or 32 bits) whatever the magnitude of the value,
  followed by the operator code; a copied operator keeps its source bytes.
\<close>

definition serialize_int2 :: "nat \<Rightarrow> hb_serialize_context_t \<Rightarrow> hb_serialize_context_t option" where
  "serialize_int2 v c = do {
     c1 \<leftarrow> embed [of_nat OpCode_shortint] c;
     embed (be_bytes 2 v) c1 }"

definition serialize_int4 :: "nat \<Rightarrow> hb_serialize_context_t \<Rightarrow> hb_serialize_context_t option" where
  "serialize_int4 v c = do {
     c1 \<leftarrow> embed [of_nat OpCode_longint] c;
     embed (be_bytes 4 v) c1 }"

definition serialize_offset2_op ::
  "OpCode \<Rightarrow> nat \<Rightarrow> hb_serialize_context_t \<Rightarrow> hb_serialize_context_t option" where
  "serialize_offset2_op opc v c = do {
     c1 \<leftarrow> serialize_int2 v c;
     embed (opcode_bytes opc) c1 }"

definition serialize_offset4_op ::
  "OpCode \<Rightarrow> nat \<Rightarrow> hb_serialize_context_t \<Rightarrow> hb_serialize_context_t option" where
  "serialize_offset4_op opc v c = do {
     c1 \<leftarrow> serialize_int4 v c;
     embed (opcode_bytes opc) c1 }"

definition copy_opstr :: "OpStr \<Rightarrow> hb_serialize_context_t \<Rightarrow> hb_serialize_context_t option" where
  "copy_opstr opstr c = embed (str opstr) c"

subsection \<open>The three operator serializers\<close>

text \<open>\<open>CFF2TopDict_OpSerializer\<close>, lines 52 to 94.\<close>

definition CFF2TopDict_OpSerializer_serialize ::
  "OpStr \<Rightarrow> CFF2SubTableOffsets \<Rightarrow> hb_serialize_context_t \<Rightarrow> hb_serialize_context_t option" where
  "CFF2TopDict_OpSerializer_serialize opstr offsets c =
     (if op opstr = OpCode_vstore then
        serialize_offset4_op (op opstr) (varStoreOffset offsets) c
      else if op opstr = OpCode_CharStrings then
        serialize_offset4_op (op opstr) (charStringsOffset offsets) c
      else if op opstr = OpCode_FDArray then
        serialize_offset4_op (op opstr) (FDArrayOffset offsets) c
      else if op opstr = OpCode_FDSelect then
        serialize_offset4_op (op opstr) (offset (FDSelectInfo offsets)) c
      else copy_opstr opstr c)"

definition CFF2TopDict_OpSerializer_calculate_serialized_size :: "OpStr \<Rightarrow> nat" where
  "CFF2TopDict_OpSerializer_calculate_serialized_size opstr =
     (if op opstr = OpCode_vstore \<or> op opstr = OpCode_CharStrings
         \<or> op opstr = OpCode_FDArray \<or> op opstr = OpCode_FDSelect
      then OpCode_Size OpCode_longint + 4 + OpCode_Size (op opstr)
      else length (str opstr))"

text \<open>\<open>CFF2FontDict_OpSerializer\<close>, lines 96 to 137.\<close>

definition CFF2FontDict_OpSerializer_serialize ::
  "OpStr \<Rightarrow> TableInfo \<Rightarrow> hb_serialize_context_t \<Rightarrow> hb_serialize_context_t option" where
  "CFF2FontDict_OpSerializer_serialize opstr privDictInfo c =
     (if op opstr = OpCode_Private then do {
        c1 \<leftarrow> serialize_int2 (size' privDictInfo) c;
        c2 \<leftarrow> serialize_int4 (offset privDictInfo) c1;
        embed [of_nat OpCode_Private] c2 }
      else embed (str opstr) c)"

definition CFF2FontDict_OpSerializer_calculate_serialized_size :: "OpStr \<Rightarrow> nat" where
  "CFF2FontDict_OpSerializer_calculate_serialized_size opstr =
     (if op opstr = OpCode_Private
      then OpCode_Size OpCode_longint + 4 + OpCode_Size OpCode_shortint + 2
           + OpCode_Size OpCode_Private
      else length (str opstr))"

text \<open>\<open>CFF2PrivateDict_OpSerializer\<close>, lines 139 to 160.\<close>

definition CFF2PrivateDict_OpSerializer_serialize ::
  "OpStr \<Rightarrow> nat \<Rightarrow> hb_serialize_context_t \<Rightarrow> hb_serialize_context_t option" where
  "CFF2PrivateDict_OpSerializer_serialize opstr subrsOffset c =
     (if op opstr = OpCode_Subrs then serialize_offset2_op OpCode_Subrs subrsOffset c
      else copy_opstr opstr c)"

definition CFF2PrivateDict_OpSerializer_calculate_serialized_size :: "OpStr \<Rightarrow> nat" where
  "CFF2PrivateDict_OpSerializer_calculate_serialized_size opstr =
     (if op opstr = OpCode_Subrs
      then OpCode_Size OpCode_shortint + 2 + OpCode_Size OpCode_Subrs
      else length (str opstr))"

subsection \<open>Dicts, indexes, font-dict selector and font-dict array\<close>

text \<open>
  \<open>hb_vector_t::operator[]\<close> and \<open>Index::operator[]\<close> hand out a null object for an
  index out of range; \<open>vec_at d\<close> is that lookup with \<open>d\<close> the null object.
\<close>

definition vec_at :: "'a \<Rightarrow> 'a list \<Rightarrow> nat \<Rightarrow> 'a" where
  "vec_at d xs i = (if i < length xs then xs ! i else d)"

text \<open>
  Modelled from the spec: \<open>Dict::calculate_serialized_size\<close> and \<open>Dict::serialize\<close>
  are defined in the CFF common headers, not under src/. The spec: the size of a dict is
  the sum over its operators of each operator's transcoded size, and the dict is written
  operator by operator, stopping at the first failure.
\<close>

definition Dict_calculate_serialized_size :: "(OpStr \<Rightarrow> nat) \<Rightarrow> OpStr list \<Rightarrow> nat" where
  "Dict_calculate_serialized_size opszr dictval = sum_list (map opszr dictval)"

primrec Dict_serialize ::
  "(OpStr \<Rightarrow> 'p \<Rightarrow> hb_serialize_context_t \<Rightarrow> hb_serialize_context_t option)
   \<Rightarrow> OpStr list \<Rightarrow> 'p \<Rightarrow> hb_serialize_context_t \<Rightarrow> hb_serialize_context_t option" where
  "Dict_serialize opszr [] param c = Some c"
| "Dict_serialize opszr (x # xs) param c =
     Option.bind (opszr x param c) (Dict_serialize opszr xs param)"

text \<open>
  Modelled from the spec: \<open>calcOffSize\<close> is defined in the CFF common headers, not
  under src/. The spec: the smallest unsigned byte width that holds the value.
\<close>

function calcOffSize :: "nat \<Rightarrow> nat" where
  "calcOffSize v = (if v < 256 then 1 else Suc (calcOffSize (v div 256)))"
  by pat_completeness auto
termination
  by (relation "measure id") auto

declare calcOffSize.simps [simp del]

text \<open>
  Modelled from the spec: the index structure (\<open>Index\<close>, of which \<open>CFF2CharStrings\<close>,
  \<open>CFF2Subrs\<close> and \<open>CFF2FDArray\<close> are instances) is defined in the CFF common
  headers, not under src/. The spec: a length-prefixed, offset-array-addressed sequence
  of byte strings, whose size is the index-header size plus the offset-array size plus
  the data size. In CFF2 the header is a 4-byte count and a 1-byte offset size, and the
  \<open>count + 1\<close> offsets count from 1.
\<close>

definition Index_min_size :: nat where
  "Index_min_size = 5"

definition Index_calculate_offset_array_size :: "nat \<Rightarrow> nat \<Rightarrow> nat" where
  "Index_calculate_offset_array_size offSize count = offSize * (count + 1)"

definition Index_calculate_serialized_size :: "nat \<Rightarrow> nat \<Rightarrow> nat \<Rightarrow> nat" where
  "Index_calculate_serialized_size offSize count dataSize =
     Index_min_size + Index_calculate_offset_array_size offSize count + dataSize"

primrec Index_offsets :: "nat \<Rightarrow> nat \<Rightarrow> nat list \<Rightarrow> byte list" where
  "Index_offsets offSize off [] = be_bytes offSize off"
| "Index_offsets offSize off (l # ls) =
     be_bytes offSize off @ Index_offsets offSize (off + l) ls"

primrec embed_all :: "byte list list \<Rightarrow> hb_serialize_context_t \<Rightarrow> hb_serialize_context_t option" where
  "embed_all [] c = Some c"
| "embed_all (bs # bss) c = Option.bind (embed bs c) (embed_all bss)"

definition Index_serialize ::
  "nat \<Rightarrow> byte list list \<Rightarrow> hb_serialize_context_t \<Rightarrow> hb_serialize_context_t option" where
  "Index_serialize offSize bytesArray c = do {
     c1 \<leftarrow> embed (be_bytes 4 (length bytesArray) @ be_bytes 1 offSize) c;
     c2 \<leftarrow> embed (Index_offsets offSize 1 (map length bytesArray)) c1;
     embed_all bytesArray c2 }"

text \<open>Reading an index that starts at the head of \<open>bs\<close>: \<open>Index::operator[]\<close>.\<close>

definition Index_count :: "byte list \<Rightarrow> nat" where
  "Index_count bs = be_val (take 4 bs)"

definition Index_offSize :: "byte list \<Rightarrow> nat" where
  "Index_offSize bs = be_val (take 1 (drop 4 bs))"

definition Index_offset_at :: "byte list \<Rightarrow> nat \<Rightarrow> nat" where
  "Index_offset_at bs i =
     be_val (take (Index_offSize bs) (drop (Index_min_size + Index_offSize bs * i) bs))"

definition Index_at :: "byte list \<Rightarrow> nat \<Rightarrow> byte list" where
  "Index_at bs i =
     (if i < Index_count bs then
        take (Index_offset_at bs (i + 1) - Index_offset_at bs i)
          (drop (Index_min_size + Index_offSize bs * (Index_count bs + 1)
                 + (Index_offset_at bs i - 1)) bs)
      else [])"

text \<open>
  A section of the source that is copied as it stands (global subroutines, variation
  store, local subroutines, an unsubsetted selector) is kept as its bytes:
  \<open>get_size\<close> is their number, and a null section has size 0.
\<close>

definition get_size :: "byte list option \<Rightarrow> nat" where
  "get_size s = (case s of None \<Rightarrow> 0 | Some bs \<Rightarrow> length bs)"

text \<open>
  Modelled from the spec: the selector table (\<open>FDSelect\<close>) and its remapper
  (\<open>hb_plan_subset_cff_fdselect\<close>, \<open>hb_serialize_cff_fdselect\<close>) are defined in
  hb-subset-cff-common-private.hh and the CFF table headers, not under src/. The spec:
  the selector maps each glyph to a font dict; for each retained glyph the remapper
  looks up its font dict, fails on an index outside \<open>[0, orig_fd_count)\<close>, numbers the
  referenced font dicts densely by first-seen order (others are excluded), records a
  breakpoint at each run boundary, and chooses the smaller of a dense per-glyph array
  and a ranged table. When no font dict is dropped no index mapping is made.
  \<open>fds_data\<close> are the bytes of the source selector, \<open>fds_fd\<close> its glyph to font-dict
  map. \<open>HB_SET_VALUE_INVALID\<close> (hb-set.h) is the entry of \<open>fdmap\<close> for a font dict
  excluded from the subset, as the comment of lines 273 to 275 says.
\<close>

record FDSelect =
  fds_data :: "byte list"
  fds_fd :: "nat list"

definition get_fd :: "FDSelect \<Rightarrow> nat \<Rightarrow> nat" where
  "get_fd sel glyph = vec_at 0 (fds_fd sel) glyph"

definition FDSelect_calculate_serialized_size :: "FDSelect \<Rightarrow> nat \<Rightarrow> nat" where
  "FDSelect_calculate_serialized_size sel num_glyphs = length (fds_data sel)"

definition FDSelect_serialize ::
  "FDSelect \<Rightarrow> nat \<Rightarrow> hb_serialize_context_t \<Rightarrow> hb_serialize_context_t option" where
  "FDSelect_serialize sel num_glyphs c = embed (fds_data sel) c"

definition HB_SET_VALUE_INVALID :: nat where
  "HB_SET_VALUE_INVALID = 4294967295"

primrec seen_order :: "nat list \<Rightarrow> nat list \<Rightarrow> nat list" where
  "seen_order [] seen = seen"
| "seen_order (fd # fds) seen =
     (if fd \<in> set seen then seen_order fds seen else seen_order fds (seen @ [fd]))"

primrec index_in :: "nat \<Rightarrow> nat list \<Rightarrow> nat option" where
  "index_in x [] = None"
| "index_in x (y # ys) = (if x = y then Some 0 else map_option Suc (index_in x ys))"

primrec run_starts :: "nat \<Rightarrow> nat option \<Rightarrow> nat list \<Rightarrow> nat list" where
  "run_starts i prev [] = []"
| "run_starts i prev (fd # fds) =
     (if prev = Some fd then run_starts (Suc i) (Some fd) fds
      else i # run_starts (Suc i) (Some fd) fds)"

definition fdselect_dense_size :: "nat \<Rightarrow> nat" where
  "fdselect_dense_size n = 1 + n"

definition fdselect_ranged_size :: "nat \<Rightarrow> nat" where
  "fdselect_ranged_size r = 1 + 2 + 3 * r + 2"

text \<open>The result: \<open>(subst_fd_count, size, format, first_glyphs, fdmap)\<close>.\<close>

definition hb_plan_subset_cff_fdselect ::
  "nat list \<Rightarrow> nat \<Rightarrow> FDSelect \<Rightarrow> (nat \<times> nat \<times> nat \<times> nat list \<times> nat list) option" where
  "hb_plan_subset_cff_fdselect glyphs fdCount src =
     (let fds = map (get_fd src) glyphs in
      if list_ex (\<lambda>fd. fdCount \<le> fd) fds then None
      else
        let seen = seen_order fds [];
            subst_fd_count = length seen;
            fd_map = (if subst_fd_count = fdCount then []
                      else map (\<lambda>fd. case index_in fd seen of
                                         None \<Rightarrow> HB_SET_VALUE_INVALID
                                       | Some k \<Rightarrow> k) [0..<fdCount]);
            first_glyphs = run_starts 0 None fds;
            dense = fdselect_dense_size (length glyphs);
            ranged = fdselect_ranged_size (length first_glyphs)
        in Some (subst_fd_count,
                 (if ranged < dense then ranged else dense),
                 (if ranged < dense then 3 else 0),
                 first_glyphs, fd_map))"

definition remapped_fd :: "nat list \<Rightarrow> FDSelect \<Rightarrow> nat \<Rightarrow> nat" where
  "remapped_fd fd_map src glyph = vec_at HB_SET_VALUE_INVALID fd_map (get_fd src glyph)"

definition hb_serialize_cff_fdselect ::
  "nat list \<Rightarrow> FDSelect \<Rightarrow> nat \<Rightarrow> nat \<Rightarrow> nat \<Rightarrow> nat list \<Rightarrow> nat list
   \<Rightarrow> hb_serialize_context_t \<Rightarrow> hb_serialize_context_t option" where
  "hb_serialize_cff_fdselect glyphs src fdCount fdselect_format sz first_glyphs fd_map c =
     (if fdselect_format = 0 then
        embed (of_nat fdselect_format # map (\<lambda>g. of_nat (remapped_fd fd_map src g)) glyphs) c
      else
        embed (of_nat fdselect_format # be_bytes 2 (length first_glyphs)
               @ concat (map (\<lambda>i. be_bytes 2 i
                                  @ [of_nat (remapped_fd fd_map src (vec_at 0 glyphs i))])
                           first_glyphs)
               @ be_bytes 2 (length glyphs)) c)"

text \<open>
  Modelled from the spec: \<open>CFF2FDArray\<close> is defined in the CFF table headers, not
  under src/. The spec: an index over the retained font dicts only, in the plan's dense
  remapped order, each transcoded with the font-dict serializer, its \<open>Private\<close>
  operator carrying the placement recorded for that font dict's private dict.
  \<open>fd_orig_index fd_map k\<close> is the original index of the font dict renumbered \<open>k\<close>.
\<close>

definition fd_orig_index :: "nat list \<Rightarrow> nat \<Rightarrow> nat" where
  "fd_orig_index fd_map k =
     (if fd_map = [] then k
      else case index_in k fd_map of None \<Rightarrow> length fd_map | Some i \<Rightarrow> i)"

definition CFF2FDArray_dictsSize ::
  "OpStr list list \<Rightarrow> nat \<Rightarrow> nat list \<Rightarrow> (OpStr \<Rightarrow> nat) \<Rightarrow> nat" where
  "CFF2FDArray_dictsSize fontDicts fdCount fd_map opszr =
     sum_list (map (\<lambda>k. Dict_calculate_serialized_size opszr
                          (vec_at [] fontDicts (fd_orig_index fd_map k))) [0..<fdCount])"

text \<open>The result: \<open>(offSize, size)\<close>.\<close>

definition CFF2FDArray_calculate_serialized_size ::
  "OpStr list list \<Rightarrow> nat \<Rightarrow> nat list \<Rightarrow> (OpStr \<Rightarrow> nat) \<Rightarrow> nat \<times> nat" where
  "CFF2FDArray_calculate_serialized_size fontDicts fdCount fd_map opszr =
     (let dictsSize = CFF2FDArray_dictsSize fontDicts fdCount fd_map opszr;
          offSize = calcOffSize (dictsSize + 1)
      in (offSize, Index_calculate_serialized_size offSize fdCount dictsSize))"

primrec FontDicts_serialize ::
  "(OpStr \<Rightarrow> TableInfo \<Rightarrow> hb_serialize_context_t \<Rightarrow> hb_serialize_context_t option)
   \<Rightarrow> (OpStr list \<times> TableInfo) list \<Rightarrow> hb_serialize_context_t \<Rightarrow> hb_serialize_context_t option" where
  "FontDicts_serialize opszr [] c = Some c"
| "FontDicts_serialize opszr (d # ds) c =
     Option.bind (Dict_serialize opszr (fst d) (snd d) c) (FontDicts_serialize opszr ds)"

definition CFF2FDArray_serialize ::
  "nat \<Rightarrow> OpStr list list \<Rightarrow> nat \<Rightarrow> nat list \<Rightarrow> (OpStr \<Rightarrow> nat)
   \<Rightarrow> (OpStr \<Rightarrow> TableInfo \<Rightarrow> hb_serialize_context_t \<Rightarrow> hb_serialize_context_t option)
   \<Rightarrow> TableInfo list \<Rightarrow> hb_serialize_context_t \<Rightarrow> hb_serialize_context_t option" where
  "CFF2FDArray_serialize offSize fontDicts fdCount fd_map opszr_size opszr privateInfos c = do {
     c1 \<leftarrow> embed (be_bytes 4 fdCount @ be_bytes 1 offSize) c;
     c2 \<leftarrow> embed (Index_offsets offSize 1
                    (map (\<lambda>k. Dict_calculate_serialized_size opszr_size
                                (vec_at [] fontDicts (fd_orig_index fd_map k))) [0..<fdCount])) c1;
     FontDicts_serialize opszr
       (map (\<lambda>k. (vec_at [] fontDicts (fd_orig_index fd_map k),
                  vec_at \<lparr>offset = 0, size' = 0\<rparr> privateInfos (fd_orig_index fd_map k)))
            [0..<fdCount]) c2 }"

subsection \<open>The source accessor\<close>

text \<open>
  Modelled from the spec: \<open>OT::cff2::accelerator_subset_t\<close> is declared in
  hb-ot-cff2-table.hh, not under src/. The spec: the top dict's operator list, a global
  subroutine index, an optional variation store, an optional selector, an array of font
  dicts, a parallel array of private dicts (each with an optional local subroutine index
  and its offset), a charstring index and the glyph count. \<open>fdArray_count\<close> is
  \<open>acc.fdArray->count\<close>. \<open>cff2_static_size\<close> is the size of the fixed header
  (\<open>OT::cff2::static_size\<close>: two version bytes, a 1-byte top-dict offset, a 2-byte
  top-dict size).
\<close>

record PrivateDictValues =
  pd_opstrs :: "OpStr list"
  subrsOffset :: nat
  localSubrs :: "byte list option"

record accelerator_subset_t =
  topDict :: "OpStr list"
  globalSubrs :: "byte list option"
  varStore :: "byte list option"
  fdSelect :: "FDSelect option"
  fdArray_count :: nat
  fontDicts :: "OpStr list list"
  privateDicts :: "PrivateDictValues list"
  charStrings :: "byte list list"
  num_glyphs :: nat

definition cff2_static_size :: nat where
  "cff2_static_size = 5"

definition Null_PrivateDictValues :: PrivateDictValues where
  "Null_PrivateDictValues = \<lparr>pd_opstrs = [], subrsOffset = 0, localSubrs = None\<rparr>"

subsection \<open>The subset plan\<close>

record cff2_subset_plan =
  final_size :: nat
  offsets :: CFF2SubTableOffsets
  orig_fdcount :: nat
  subst_fdcount :: nat
  subst_fdselect_format :: nat
  subst_fdselect_first_glyphs :: "nat list"
  fdmap :: "nat list"
  subset_charstrings :: "byte list list"
  privateDictInfos :: "TableInfo list"

text \<open>The constructors, lines 37 to 40 and 163 to 173.\<close>

definition CFF2SubTableOffsets_init :: CFF2SubTableOffsets where
  "CFF2SubTableOffsets_init =
     \<lparr>topDictSize = 0, varStoreOffset = 0, FDSelectInfo = \<lparr>offset = 0, size' = 0\<rparr>,
      FDArrayOffset = 0, FDArrayOffSize = 0, charStringsOffset = 0, charStringsOffSize = 0,
      privateDictsOffset = 0\<rparr>"

definition cff2_subset_plan_init :: cff2_subset_plan where
  "cff2_subset_plan_init =
     \<lparr>final_size = 0, offsets = CFF2SubTableOffsets_init, orig_fdcount = 0, subst_fdcount = 1,
      subst_fdselect_format = 0, subst_fdselect_first_glyphs = [], fdmap = [],
      subset_charstrings = [], privateDictInfos = []\<rparr>"

definition is_fds_subsetted :: "cff2_subset_plan \<Rightarrow> bool" where
  "is_fds_subsetted p = (subst_fdcount p < orig_fdcount p)"

text \<open>\<open>create\<close>, lines 186 to 200: header, top dict, global subroutines.\<close>

definition create_top :: "accelerator_subset_t \<Rightarrow> cff2_subset_plan \<Rightarrow> cff2_subset_plan" where
  "create_top acc p =
     (let p1 = p\<lparr>final_size := 0, orig_fdcount := fdArray_count acc\<rparr>;
          p2 = p1\<lparr>final_size := final_size p1 + cff2_static_size\<rparr>;
          p3 = p2\<lparr>offsets := (offsets p2)\<lparr>topDictSize :=
                  Dict_calculate_serialized_size
                    CFF2TopDict_OpSerializer_calculate_serialized_size (topDict acc)\<rparr>\<rparr>;
          p4 = p3\<lparr>final_size := final_size p3 + topDictSize (offsets p3)\<rparr>
      in p4\<lparr>final_size := final_size p4 + get_size (globalSubrs acc)\<rparr>)"

text \<open>Lines 202 to 207: the variation store.\<close>

definition create_varStore :: "accelerator_subset_t \<Rightarrow> cff2_subset_plan \<Rightarrow> cff2_subset_plan" where
  "create_varStore acc p =
     (case varStore acc of
        None \<Rightarrow> p
      | Some vs \<Rightarrow>
          (let p1 = p\<lparr>offsets := (offsets p)\<lparr>varStoreOffset := final_size p\<rparr>\<rparr>
           in p1\<lparr>final_size := final_size p1 + length vs\<rparr>))"

text \<open>Lines 209 to 226: the selector; \<open>None\<close> is \<open>return false\<close>.\<close>

definition create_FDSelect ::
  "accelerator_subset_t \<Rightarrow> nat list \<Rightarrow> cff2_subset_plan \<Rightarrow> cff2_subset_plan option" where
  "create_FDSelect acc glyphs p =
     (case fdSelect acc of
        None \<Rightarrow> Some p
      | Some sel \<Rightarrow>
          (let p1 = p\<lparr>offsets := (offsets p)\<lparr>FDSelectInfo :=
                       (FDSelectInfo (offsets p))\<lparr>offset := final_size p\<rparr>\<rparr>\<rparr>
           in case hb_plan_subset_cff_fdselect glyphs (orig_fdcount p1) sel of
                None \<Rightarrow> None
              | Some (fd_count, sz, fmt, first_glyphs, fd_map) \<Rightarrow>
                  (let p2 = p1\<lparr>subst_fdcount := fd_count,
                               offsets := (offsets p1)\<lparr>FDSelectInfo :=
                                  (FDSelectInfo (offsets p1))\<lparr>size' := sz\<rparr>\<rparr>,
                               subst_fdselect_format := fmt,
                               subst_fdselect_first_glyphs := first_glyphs,
                               fdmap := fd_map\<rparr>;
                       p3 = (if \<not> is_fds_subsetted p2
                             then p2\<lparr>offsets := (offsets p2)\<lparr>FDSelectInfo :=
                                    (FDSelectInfo (offsets p2))\<lparr>size' :=
                                       FDSelect_calculate_serialized_size sel (num_glyphs acc)\<rparr>\<rparr>\<rparr>
                             else p2)
                   in Some (p3\<lparr>final_size := final_size p3 + size' (FDSelectInfo (offsets p3))\<rparr>))))"

text \<open>Lines 228 to 233: the font-dict array.\<close>

definition create_FDArray :: "accelerator_subset_t \<Rightarrow> cff2_subset_plan \<Rightarrow> cff2_subset_plan" where
  "create_FDArray acc p =
     (let p1 = p\<lparr>offsets := (offsets p)\<lparr>FDArrayOffset := final_size p\<rparr>\<rparr>;
          r = CFF2FDArray_calculate_serialized_size (fontDicts acc) (subst_fdcount p1) (fdmap p1)
                CFF2FontDict_OpSerializer_calculate_serialized_size
      in p1\<lparr>offsets := (offsets p1)\<lparr>FDArrayOffSize := fst r\<rparr>,
            final_size := final_size p1 + snd r\<rparr>)"

text \<open>Lines 235 to 247: the charstrings.\<close>

definition create_CharStrings ::
  "accelerator_subset_t \<Rightarrow> nat list \<Rightarrow> cff2_subset_plan \<Rightarrow> cff2_subset_plan" where
  "create_CharStrings acc glyphs p =
     (let p1 = p\<lparr>offsets := (offsets p)\<lparr>charStringsOffset := final_size p\<rparr>\<rparr>;
          strs = map (\<lambda>g. vec_at [] (charStrings acc) g) glyphs;
          dataSize = sum_list (map length strs);
          p2 = p1\<lparr>subset_charstrings := subset_charstrings p1 @ strs\<rparr>;
          p3 = p2\<lparr>offsets := (offsets p2)\<lparr>charStringsOffSize := calcOffSize (dataSize + 1)\<rparr>\<rparr>
      in p3\<lparr>final_size := final_size p3
               + Index_calculate_serialized_size (charStringsOffSize (offsets p3))
                   (length glyphs) dataSize\<rparr>)"

text \<open>Lines 249 to 257: the private dicts and local subroutines.\<close>

primrec create_privateDicts :: "PrivateDictValues list \<Rightarrow> cff2_subset_plan \<Rightarrow> cff2_subset_plan" where
  "create_privateDicts [] p = p"
| "create_privateDicts (pd # pds) p =
     (let privInfo = \<lparr>offset = final_size p,
                      size' = Dict_calculate_serialized_size
                                CFF2PrivateDict_OpSerializer_calculate_serialized_size
                                (pd_opstrs pd)\<rparr>;
          p1 = p\<lparr>privateDictInfos := privateDictInfos p @ [privInfo]\<rparr>
      in create_privateDicts pds
           (p1\<lparr>final_size := final_size p1 + size' privInfo + get_size (localSubrs pd)\<rparr>))"

definition create :: "accelerator_subset_t \<Rightarrow> nat list \<Rightarrow> cff2_subset_plan option" where
  "create acc glyphs =
     (case create_FDSelect acc glyphs (create_varStore acc (create_top acc cff2_subset_plan_init)) of
        None \<Rightarrow> None
      | Some p \<Rightarrow>
          (let p1 = create_CharStrings acc glyphs (create_FDArray acc p);
               p2 = p1\<lparr>offsets := (offsets p1)\<lparr>privateDictsOffset := final_size p1\<rparr>\<rparr>
           in Some (create_privateDicts
                      (map (vec_at Null_PrivateDictValues (privateDicts acc))
                           [0..<orig_fdcount p2]) p2)))"

definition get_final_size :: "cff2_subset_plan \<Rightarrow> nat" where
  "get_final_size p = final_size p"

subsection \<open>The table writer\<close>

text \<open>
  \<open>_write_cff2\<close> returns \<open>true\<close> (\<open>Written\<close>, with the buffer it filled), returns
  \<open>false\<close> (\<open>WriteFailed\<close>), or stops at an \<open>assert\<close> (\<open>AssertionFailed\<close>).
\<close>

datatype write_result = Written hb_serialize_context_t | WriteFailed | AssertionFailed

definition and_then ::
  "write_result \<Rightarrow> (hb_serialize_context_t \<Rightarrow> write_result) \<Rightarrow> write_result" where
  "and_then r f = (case r of Written c \<Rightarrow> f c | WriteFailed \<Rightarrow> WriteFailed
                   | AssertionFailed \<Rightarrow> AssertionFailed)"

definition or_fail :: "hb_serialize_context_t option \<Rightarrow> write_result" where
  "or_fail r = (case r of None \<Rightarrow> WriteFailed | Some c \<Rightarrow> Written c)"

definition assert_head :: "nat \<Rightarrow> hb_serialize_context_t \<Rightarrow> write_result" where
  "assert_head n c = (if n = head c then Written c else AssertionFailed)"

text \<open>
  A copied section (\<open>CFF2Subrs::serialize\<close>, \<open>CFF2VariationStore::serialize\<close>):
  \<open>get_size\<close> bytes of the source.
\<close>

definition copy_section ::
  "byte list option \<Rightarrow> hb_serialize_context_t \<Rightarrow> hb_serialize_context_t option" where
  "copy_section s c = embed (case s of None \<Rightarrow> [] | Some bs \<Rightarrow> bs) c"

text \<open>
  Lines 287 to 309: the header and the top dict. The header's fields are stored into the
  five bytes \<open>extend_min\<close> allocated; \<open>topDict\<close> is an 8-bit and \<open>topDictSize\<close> a
  16-bit field.
\<close>

definition write_header :: "cff2_subset_plan \<Rightarrow> hb_serialize_context_t \<Rightarrow> write_result" where
  "write_header plan c =
     or_fail (embed ([2, 0] @ be_bytes 1 cff2_static_size
                     @ be_bytes 2 (topDictSize (offsets plan))) c)"

definition write_topDict ::
  "cff2_subset_plan \<Rightarrow> accelerator_subset_t \<Rightarrow> hb_serialize_context_t \<Rightarrow> write_result" where
  "write_topDict plan acc c =
     and_then (assert_head cff2_static_size c)
       (\<lambda>c. or_fail (Dict_serialize CFF2TopDict_OpSerializer_serialize (topDict acc)
                        (offsets plan) c))"

text \<open>Lines 311 to 321: the global subroutines.\<close>

definition write_globalSubrs ::
  "cff2_subset_plan \<Rightarrow> accelerator_subset_t \<Rightarrow> hb_serialize_context_t \<Rightarrow> write_result" where
  "write_globalSubrs plan acc c =
     and_then (assert_head (cff2_static_size + topDictSize (offsets plan)) c)
       (\<lambda>c. or_fail (copy_section (globalSubrs acc) c))"

text \<open>Lines 323 to 333: the variation store.\<close>

definition write_varStore ::
  "cff2_subset_plan \<Rightarrow> accelerator_subset_t \<Rightarrow> hb_serialize_context_t \<Rightarrow> write_result" where
  "write_varStore plan acc c =
     (case varStore acc of
        None \<Rightarrow> Written c
      | Some vs \<Rightarrow>
          and_then (assert_head (varStoreOffset (offsets plan)) c)
            (\<lambda>c. or_fail (copy_section (Some vs) c)))"

text \<open>Lines 335 to 360: the selector.\<close>

definition write_FDSelect ::
  "cff2_subset_plan \<Rightarrow> accelerator_subset_t \<Rightarrow> nat list \<Rightarrow> hb_serialize_context_t
   \<Rightarrow> write_result" where
  "write_FDSelect plan acc glyphs c =
     (case fdSelect acc of
        None \<Rightarrow> Written c
      | Some sel \<Rightarrow>
          and_then (assert_head (offset (FDSelectInfo (offsets plan))) c)
            (\<lambda>c. if is_fds_subsetted plan then
                    or_fail (hb_serialize_cff_fdselect glyphs sel (fdArray_count acc)
                               (subst_fdselect_format plan) (size' (FDSelectInfo (offsets plan)))
                               (subst_fdselect_first_glyphs plan) (fdmap plan) c)
                  else or_fail (FDSelect_serialize sel (num_glyphs acc) c)))"

text \<open>Lines 362 to 375: the font-dict array.\<close>

definition write_FDArray ::
  "cff2_subset_plan \<Rightarrow> accelerator_subset_t \<Rightarrow> hb_serialize_context_t \<Rightarrow> write_result" where
  "write_FDArray plan acc c =
     and_then (assert_head (FDArrayOffset (offsets plan)) c)
       (\<lambda>c. or_fail (CFF2FDArray_serialize (FDArrayOffSize (offsets plan)) (fontDicts acc)
                        (subst_fdcount plan) (fdmap plan)
                        CFF2FontDict_OpSerializer_calculate_serialized_size
                        CFF2FontDict_OpSerializer_serialize (privateDictInfos plan) c))"

text \<open>Lines 377 to 387: the charstrings.\<close>

definition write_CharStrings :: "cff2_subset_plan \<Rightarrow> hb_serialize_context_t \<Rightarrow> write_result" where
  "write_CharStrings plan c =
     and_then (assert_head (charStringsOffset (offsets plan)) c)
       (\<lambda>c. or_fail (Index_serialize (charStringsOffSize (offsets plan))
                        (subset_charstrings plan) c))"

text \<open>
  Lines 391 to 416: the loop over the private dicts, each paired with the placement
  \<open>plan.privateDictInfos[i]\<close>; a nonzero \<open>subrsOffset\<close> with a null \<open>localSubrs\<close> is
  \<open>return false\<close>.
\<close>

primrec write_privateDict_loop ::
  "(PrivateDictValues \<times> TableInfo) list \<Rightarrow> hb_serialize_context_t
   \<Rightarrow> hb_serialize_context_t option" where
  "write_privateDict_loop [] c = Some c"
| "write_privateDict_loop (x # xs) c = do {
     c1 \<leftarrow> Dict_serialize CFF2PrivateDict_OpSerializer_serialize (pd_opstrs (fst x))
             (size' (snd x)) c;
     c2 \<leftarrow> (if subrsOffset (fst x) \<noteq> 0 then
              (case localSubrs (fst x) of
                 None \<Rightarrow> None
               | Some subrs \<Rightarrow> copy_section (Some subrs) c1)
            else Some c1);
     write_privateDict_loop xs c2 }"

definition write_privateDicts ::
  "cff2_subset_plan \<Rightarrow> accelerator_subset_t \<Rightarrow> hb_serialize_context_t \<Rightarrow> write_result" where
  "write_privateDicts plan acc c =
     and_then (assert_head (privateDictsOffset (offsets plan)) c)
       (\<lambda>c. or_fail (write_privateDict_loop
                        (map (\<lambda>i. (privateDicts acc ! i,
                                   vec_at \<lparr>offset = 0, size' = 0\<rparr> (privateDictInfos plan) i))
                             [0..<length (privateDicts acc)]) c))"

text \<open>
  \<open>_write_cff2\<close>, lines 281 to 421, over a buffer of \<open>dest_sz\<close> bytes: the sections
  in the order of the source, each run on the context the one before it left, the first
  \<open>return false\<close> or failed \<open>assert\<close> ending the run.
\<close>

definition write_sections ::
  "cff2_subset_plan \<Rightarrow> accelerator_subset_t \<Rightarrow> nat list
   \<Rightarrow> (hb_serialize_context_t \<Rightarrow> write_result) list" where
  "write_sections plan acc glyphs =
     [write_header plan, write_topDict plan acc, write_globalSubrs plan acc,
      write_varStore plan acc, write_FDSelect plan acc glyphs, write_FDArray plan acc,
      write_CharStrings plan, write_privateDicts plan acc]"

definition run_sections ::
  "(hb_serialize_context_t \<Rightarrow> write_result) list \<Rightarrow> nat \<Rightarrow> write_result" where
  "run_sections steps dest_sz = foldl and_then (Written \<lparr>written = [], room = dest_sz\<rparr>) steps"

definition write_cff2 ::
  "cff2_subset_plan \<Rightarrow> accelerator_subset_t \<Rightarrow> nat list \<Rightarrow> nat \<Rightarrow> write_result" where
  "write_cff2 plan acc glyphs dest_sz = run_sections (write_sections plan acc glyphs) dest_sz"

subsection \<open>The driver\<close>

text \<open>
  \<open>_hb_subset_cff2\<close>, lines 423 to 453. \<open>calloc_ok\<close> tells whether \<open>calloc\<close> returned a
  buffer. The source does not test the pointer: it calls \<open>_write_cff2\<close> with it, which
  sets up the serialization context over it and writes the header through it
  (\<open>Null_buffer_written\<close>). \<open>Failure\<close> is \<open>return false\<close> with \<open>*prime\<close> untouched;
  \<open>Success\<close> is \<open>return true\<close> with the blob of \<open>cff2_prime_size\<close> bytes, zero where
  the writer stored nothing.
\<close>

datatype subset_result = Success "byte list" | Failure | Assertion_abort | Null_buffer_written

definition hb_subset_cff2_impl ::
  "accelerator_subset_t \<Rightarrow> nat list \<Rightarrow> bool \<Rightarrow> subset_result" where
  "hb_subset_cff2_impl acc glyphs calloc_ok =
     (case create acc glyphs of
        None \<Rightarrow> Failure
      | Some cff2_plan \<Rightarrow>
          (let cff2_prime_size = get_final_size cff2_plan in
           if \<not> calloc_ok then Null_buffer_written
           else case write_cff2 cff2_plan acc glyphs cff2_prime_size of
                  WriteFailed \<Rightarrow> Failure
                | AssertionFailed \<Rightarrow> Assertion_abort
                | Written c \<Rightarrow>
                    Success (written c @ replicate (cff2_prime_size - head c) 0)))"

subsection \<open>Sizes the plan adds up\<close>

text \<open>
  Names for the section sizes \<open>create\<close> adds to \<open>final_size\<close>, and for the placements
  its last loop records for a run of private dicts, the first one placed at \<open>off\<close>.
\<close>

definition TopDict_size :: "accelerator_subset_t \<Rightarrow> nat" where
  "TopDict_size acc =
     Dict_calculate_serialized_size CFF2TopDict_OpSerializer_calculate_serialized_size (topDict acc)"

definition PrivateDict_size :: "PrivateDictValues \<Rightarrow> nat" where
  "PrivateDict_size pd =
     Dict_calculate_serialized_size CFF2PrivateDict_OpSerializer_calculate_serialized_size
       (pd_opstrs pd)"

definition FDSelect_size :: "cff2_subset_plan \<Rightarrow> accelerator_subset_t \<Rightarrow> nat" where
  "FDSelect_size plan acc =
     (case fdSelect acc of None \<Rightarrow> 0 | Some sel \<Rightarrow> size' (FDSelectInfo (offsets plan)))"

definition FDArray_size :: "cff2_subset_plan \<Rightarrow> accelerator_subset_t \<Rightarrow> nat" where
  "FDArray_size plan acc =
     snd (CFF2FDArray_calculate_serialized_size (fontDicts acc) (subst_fdcount plan) (fdmap plan)
            CFF2FontDict_OpSerializer_calculate_serialized_size)"

definition CharStrings_dataSize :: "accelerator_subset_t \<Rightarrow> nat list \<Rightarrow> nat" where
  "CharStrings_dataSize acc glyphs =
     sum_list (map (\<lambda>g. length (vec_at [] (charStrings acc) g)) glyphs)"

definition CharStrings_size :: "cff2_subset_plan \<Rightarrow> accelerator_subset_t \<Rightarrow> nat list \<Rightarrow> nat" where
  "CharStrings_size plan acc glyphs =
     Index_calculate_serialized_size (charStringsOffSize (offsets plan)) (length glyphs)
       (CharStrings_dataSize acc glyphs)"

primrec privateDict_infos_from :: "nat \<Rightarrow> PrivateDictValues list \<Rightarrow> TableInfo list" where
  "privateDict_infos_from off [] = []"
| "privateDict_infos_from off (pd # pds) =
     \<lparr>offset = off, size' = PrivateDict_size pd\<rparr>
     # privateDict_infos_from (off + PrivateDict_size pd + get_size (localSubrs pd)) pds"

subsection \<open>The bytes a serializer stores\<close>

text \<open>
  What each operator serializer, and each section of the writer, stores when its
  allocations succeed. The lemmas below show that a serializer is \<open>embed\<close> of these
  bytes, so that it advances the cursor by their number or fails for lack of room.
\<close>

definition CFF2TopDict_op_bytes :: "OpStr \<Rightarrow> CFF2SubTableOffsets \<Rightarrow> byte list" where
  "CFF2TopDict_op_bytes opstr offs =
     (if op opstr = OpCode_vstore then
        of_nat OpCode_longint # be_bytes 4 (varStoreOffset offs) @ opcode_bytes (op opstr)
      else if op opstr = OpCode_CharStrings then
        of_nat OpCode_longint # be_bytes 4 (charStringsOffset offs) @ opcode_bytes (op opstr)
      else if op opstr = OpCode_FDArray then
        of_nat OpCode_longint # be_bytes 4 (FDArrayOffset offs) @ opcode_bytes (op opstr)
      else if op opstr = OpCode_FDSelect then
        of_nat OpCode_longint # be_bytes 4 (offset (FDSelectInfo offs)) @ opcode_bytes (op opstr)
      else str opstr)"

definition CFF2FontDict_op_bytes :: "OpStr \<Rightarrow> TableInfo \<Rightarrow> byte list" where
  "CFF2FontDict_op_bytes opstr info =
     (if op opstr = OpCode_Private then
        of_nat OpCode_shortint # be_bytes 2 (size' info)
        @ of_nat OpCode_longint # be_bytes 4 (offset info) @ [of_nat OpCode_Private]
      else str opstr)"

definition CFF2PrivateDict_op_bytes :: "OpStr \<Rightarrow> nat \<Rightarrow> byte list" where
  "CFF2PrivateDict_op_bytes opstr subrsOff =
     (if op opstr = OpCode_Subrs then
        of_nat OpCode_shortint # be_bytes 2 subrsOff @ opcode_bytes OpCode_Subrs
      else str opstr)"

definition Dict_bytes :: "(OpStr \<Rightarrow> 'p \<Rightarrow> byte list) \<Rightarrow> OpStr list \<Rightarrow> 'p \<Rightarrow> byte list" where
  "Dict_bytes f dictval param = concat (map (\<lambda>x. f x param) dictval)"

definition section_bytes :: "byte list option \<Rightarrow> byte list" where
  "section_bytes s = (case s of None \<Rightarrow> [] | Some bs \<Rightarrow> bs)"

definition Index_bytes :: "nat \<Rightarrow> byte list list \<Rightarrow> byte list" where
  "Index_bytes offSize bytesArray =
     be_bytes 4 (length bytesArray) @ be_bytes 1 offSize
     @ Index_offsets offSize 1 (map length bytesArray) @ concat bytesArray"

definition header_bytes :: "cff2_subset_plan \<Rightarrow> byte list" where
  "header_bytes plan =
     [2, 0] @ be_bytes 1 cff2_static_size @ be_bytes 2 (topDictSize (offsets plan))"

definition topDict_bytes :: "cff2_subset_plan \<Rightarrow> accelerator_subset_t \<Rightarrow> byte list" where
  "topDict_bytes plan acc = Dict_bytes CFF2TopDict_op_bytes (topDict acc) (offsets plan)"

definition FDSelect_subset_bytes ::
  "nat list \<Rightarrow> FDSelect \<Rightarrow> nat \<Rightarrow> nat list \<Rightarrow> nat list \<Rightarrow> byte list" where
  "FDSelect_subset_bytes glyphs src fdselect_format first_glyphs fd_map =
     (if fdselect_format = 0 then
        of_nat fdselect_format # map (\<lambda>g. of_nat (remapped_fd fd_map src g)) glyphs
      else
        of_nat fdselect_format # be_bytes 2 (length first_glyphs)
        @ concat (map (\<lambda>i. be_bytes 2 i
                           @ [of_nat (remapped_fd fd_map src (vec_at 0 glyphs i))])
                    first_glyphs)
        @ be_bytes 2 (length glyphs))"

definition FDSelect_bytes ::
  "cff2_subset_plan \<Rightarrow> accelerator_subset_t \<Rightarrow> nat list \<Rightarrow> byte list" where
  "FDSelect_bytes plan acc glyphs =
     (case fdSelect acc of
        None \<Rightarrow> []
      | Some sel \<Rightarrow>
          if is_fds_subsetted plan then
            FDSelect_subset_bytes glyphs sel (subst_fdselect_format plan)
              (subst_fdselect_first_glyphs plan) (fdmap plan)
          else fds_data sel)"

definition FDArray_bytes :: "cff2_subset_plan \<Rightarrow> accelerator_subset_t \<Rightarrow> byte list" where
  "FDArray_bytes plan acc =
     Index_bytes (FDArrayOffSize (offsets plan))
       (map (\<lambda>k. Dict_bytes CFF2FontDict_op_bytes
                   (vec_at [] (fontDicts acc) (fd_orig_index (fdmap plan) k))
                   (vec_at \<lparr>offset = 0, size' = 0\<rparr> (privateDictInfos plan)
                      (fd_orig_index (fdmap plan) k)))
            [0..<subst_fdcount plan])"

definition CharStrings_bytes :: "cff2_subset_plan \<Rightarrow> byte list" where
  "CharStrings_bytes plan =
     Index_bytes (charStringsOffSize (offsets plan)) (subset_charstrings plan)"

text \<open>
  A private dict written with \<open>subrsOff\<close> for its \<open>Subrs\<close> operator, followed by its
  local subroutine index when \<open>subrsOffset\<close> is not zero.
\<close>

definition privateDict_pair_bytes :: "PrivateDictValues \<Rightarrow> nat \<Rightarrow> byte list" where
  "privateDict_pair_bytes pd subrsOff =
     Dict_bytes CFF2PrivateDict_op_bytes (pd_opstrs pd) subrsOff
     @ (if subrsOffset pd \<noteq> 0 then section_bytes (localSubrs pd) else [])"

definition privateDicts_bytes :: "cff2_subset_plan \<Rightarrow> accelerator_subset_t \<Rightarrow> byte list" where
  "privateDicts_bytes plan acc =
     concat (map (\<lambda>i. privateDict_pair_bytes (privateDicts acc ! i)
                         (size' (vec_at \<lparr>offset = 0, size' = 0\<rparr> (privateDictInfos plan) i)))
               [0..<length (privateDicts acc)])"

text \<open>The whole table, section after section.\<close>

definition table_bytes ::
  "cff2_subset_plan \<Rightarrow> accelerator_subset_t \<Rightarrow> nat list \<Rightarrow> byte list" where
  "table_bytes plan acc glyphs =
     header_bytes plan @ topDict_bytes plan acc @ section_bytes (globalSubrs acc)
     @ section_bytes (varStore acc) @ FDSelect_bytes plan acc glyphs @ FDArray_bytes plan acc
     @ CharStrings_bytes plan @ privateDicts_bytes plan acc"

text \<open>\<open>emit bs c\<close>: a section stores \<open>bs\<close> at the cursor, or fails for lack of room.\<close>

definition emit :: "byte list \<Rightarrow> hb_serialize_context_t \<Rightarrow> write_result" where
  "emit bs c = or_fail (embed bs c)"

subsection \<open>Conditions on the source\<close>

text \<open>No private dict has a nonzero local-subroutine offset with a null index.\<close>

definition subrs_present :: "accelerator_subset_t \<Rightarrow> bool" where
  "subrs_present acc =
     list_all (\<lambda>pd. subrsOffset pd = 0 \<or> localSubrs pd \<noteq> None) (privateDicts acc)"


subsection \<open>Example data\<close>

text \<open>
  A small source with two font dicts, four glyphs (glyphs 0 and 1 in font dict 0, glyphs
  2 and 3 in font dict 1), a variation store and a local subroutine index for font dict
  0; the plan \<open>create\<close> makes for it with glyphs 2 and 3 retained (only font dict 1 is
  still referenced), with that plan's offsets and the table written from it; the same
  source without its selector; the same source with the local subroutine index of
  private dict 0 null although its offset is not zero; and the same source with a
  private dict 0 of 32767 two-byte operators before its \<open>Subrs\<close> operator, so that
  its transcoded size, 65538 bytes, does not fit a 16-bit field, with the plan and the
  table for it.
\<close>

definition example_acc :: accelerator_subset_t where
  "example_acc =
     \<lparr>topDict = [\<lparr>op = OpCode_CharStrings, str = [28, 0, 50, 17]\<rparr>,
                 \<lparr>op = OpCode_FDArray, str = [172, 12, 36]\<rparr>,
                 \<lparr>op = OpCode_FDSelect, str = [167, 12, 37]\<rparr>,
                 \<lparr>op = OpCode_vstore, str = [163, 24]\<rparr>,
                 \<lparr>op = 263, str = [139, 12, 7]\<rparr>],
      globalSubrs = Some [0, 0, 0, 0],
      varStore = Some [0, 2, 1, 2],
      fdSelect = Some \<lparr>fds_data = [0, 0, 0, 1, 1], fds_fd = [0, 0, 1, 1]\<rparr>,
      fdArray_count = 2,
      fontDicts = [[\<lparr>op = OpCode_Private, str = [143, 239, 18]\<rparr>],
                   [\<lparr>op = OpCode_Private, str = [141, 243, 18]\<rparr>]],
      privateDicts = [\<lparr>pd_opstrs = [\<lparr>op = 6, str = [139, 6]\<rparr>,
                                    \<lparr>op = OpCode_Subrs, str = [143, 19]\<rparr>],
                        subrsOffset = 4, localSubrs = Some [0, 0, 0, 0]\<rparr>,
                      \<lparr>pd_opstrs = [\<lparr>op = 6, str = [140, 6]\<rparr>],
                        subrsOffset = 0, localSubrs = None\<rparr>],
      charStrings = [[1], [2, 2], [3, 3, 3], [4, 4, 4, 4]],
      num_glyphs = 4\<rparr>"

definition example_plan :: cff2_subset_plan where
  "example_plan =
     \<lparr>final_size = 88,
      offsets = \<lparr>topDictSize = 29, varStoreOffset = 38,
                 FDSelectInfo = \<lparr>offset = 42, size' = 3\<rparr>, FDArrayOffset = 45,
                 FDArrayOffSize = 1, charStringsOffset = 61, charStringsOffSize = 1,
                 privateDictsOffset = 76\<rparr>,
      orig_fdcount = 2, subst_fdcount = 1, subst_fdselect_format = 0,
      subst_fdselect_first_glyphs = [0], fdmap = [4294967295, 0],
      subset_charstrings = [[3, 3, 3], [4, 4, 4, 4]],
      privateDictInfos = [\<lparr>offset = 76, size' = 6\<rparr>, \<lparr>offset = 86, size' = 2\<rparr>]\<rparr>"

definition example_offsets :: CFF2SubTableOffsets where
  "example_offsets =
     \<lparr>topDictSize = 29, varStoreOffset = 38, FDSelectInfo = \<lparr>offset = 42, size' = 3\<rparr>,
      FDArrayOffset = 45, FDArrayOffSize = 1, charStringsOffset = 61, charStringsOffSize = 1,
      privateDictsOffset = 76\<rparr>"

definition example_output :: "byte list" where
  "example_output =
     [2, 0, 5, 0, 29, 29, 0, 0, 0, 61, 17, 29, 0, 0, 0, 45, 12, 36, 29, 0, 0,
      0, 42, 12, 37, 29, 0, 0, 0, 38, 24, 139, 12, 7, 0, 0, 0, 0, 0, 2, 1, 2,
      0, 0, 0, 0, 0, 0, 1, 1, 1, 10, 28, 0, 2, 29, 0, 0, 0, 86, 18, 0, 0, 0, 2,
      1, 1, 4, 8, 3, 3, 3, 4, 4, 4, 4, 139, 6, 28, 0, 6, 19, 0, 0, 0, 0, 140, 6]"

definition example_acc_no_selector :: accelerator_subset_t where
  "example_acc_no_selector =
     example_acc\<lparr>topDict := [\<lparr>op = OpCode_CharStrings, str = [28, 0, 50, 17]\<rparr>,
                             \<lparr>op = OpCode_FDArray, str = [172, 12, 36]\<rparr>,
                             \<lparr>op = OpCode_vstore, str = [163, 24]\<rparr>,
                             \<lparr>op = 263, str = [139, 12, 7]\<rparr>],
                 fdSelect := None\<rparr>"

definition example_acc_null_subrs :: accelerator_subset_t where
  "example_acc_null_subrs =
     example_acc\<lparr>privateDicts :=
       [\<lparr>pd_opstrs = [\<lparr>op = 6, str = [139, 6]\<rparr>, \<lparr>op = OpCode_Subrs, str = [143, 19]\<rparr>],
         subrsOffset = 4, localSubrs = None\<rparr>,
        \<lparr>pd_opstrs = [\<lparr>op = 6, str = [140, 6]\<rparr>], subrsOffset = 0, localSubrs = None\<rparr>]\<rparr>"




section \<open>Properties\<close>

subsection \<open>Embedding bytes\<close>

lemma length_be_bytes [simp]: "length (be_bytes n v) = n"
  by (induction n arbitrary: v) auto

lemma length_opcode_bytes [simp]: "length (opcode_bytes opc) = OpCode_Size opc"
  by (simp add: opcode_bytes_def OpCode_Size_def)

lemma embed_Some_iff:
  "embed bs c = Some c' \<longleftrightarrow> head c + length bs \<le> room c \<and> c' = c\<lparr>written := written c @ bs\<rparr>"
  by (auto simp: embed_def)

lemma embed_None_iff: "embed bs c = None \<longleftrightarrow> room c < head c + length bs"
  by (simp add: embed_def)

lemma embed_embed: "Option.bind (embed a c) (embed b) = embed (a @ b) c"
  by (auto simp: embed_def head_def)

lemma serialize_int2_embed:
  "serialize_int2 v c = embed (of_nat OpCode_shortint # be_bytes 2 v) c"
  by (simp add: serialize_int2_def embed_embed)

lemma serialize_int4_embed:
  "serialize_int4 v c = embed (of_nat OpCode_longint # be_bytes 4 v) c"
  by (simp add: serialize_int4_def embed_embed)

lemma serialize_offset2_op_embed:
  "serialize_offset2_op opc v c =
     embed (of_nat OpCode_shortint # be_bytes 2 v @ opcode_bytes opc) c"
  by (simp add: serialize_offset2_op_def serialize_int2_embed embed_embed)

lemma serialize_offset4_op_embed:
  "serialize_offset4_op opc v c =
     embed (of_nat OpCode_longint # be_bytes 4 v @ opcode_bytes opc) c"
  by (simp add: serialize_offset4_op_def serialize_int4_embed embed_embed)

subsection \<open>The operator serializers\<close>

lemma TopDict_op_embed:
  "CFF2TopDict_OpSerializer_serialize opstr offs c = embed (CFF2TopDict_op_bytes opstr offs) c"
  by (simp add: CFF2TopDict_OpSerializer_serialize_def CFF2TopDict_op_bytes_def
      serialize_offset4_op_embed copy_opstr_def)

lemma TopDict_op_length:
  "length (CFF2TopDict_op_bytes opstr offs)
     = CFF2TopDict_OpSerializer_calculate_serialized_size opstr"
  by (simp add: CFF2TopDict_op_bytes_def CFF2TopDict_OpSerializer_calculate_serialized_size_def
      OpCode_Size_def Is_OpCode_ESC_def OpCode_longint_def OpCode_ESC_Base_def)

lemma FontDict_op_embed:
  "CFF2FontDict_OpSerializer_serialize opstr info c = embed (CFF2FontDict_op_bytes opstr info) c"
  by (simp add: CFF2FontDict_OpSerializer_serialize_def CFF2FontDict_op_bytes_def
      serialize_int2_embed serialize_int4_embed embed_embed)

lemma FontDict_op_length:
  "length (CFF2FontDict_op_bytes opstr info)
     = CFF2FontDict_OpSerializer_calculate_serialized_size opstr"
  by (simp add: CFF2FontDict_op_bytes_def CFF2FontDict_OpSerializer_calculate_serialized_size_def
      OpCode_Size_def Is_OpCode_ESC_def OpCode_longint_def OpCode_shortint_def
      OpCode_Private_def OpCode_ESC_Base_def)

lemma PrivateDict_op_embed:
  "CFF2PrivateDict_OpSerializer_serialize opstr v c = embed (CFF2PrivateDict_op_bytes opstr v) c"
  by (simp add: CFF2PrivateDict_OpSerializer_serialize_def CFF2PrivateDict_op_bytes_def
      serialize_offset2_op_embed copy_opstr_def)

lemma PrivateDict_op_length:
  "length (CFF2PrivateDict_op_bytes opstr v)
     = CFF2PrivateDict_OpSerializer_calculate_serialized_size opstr"
  by (simp add: CFF2PrivateDict_op_bytes_def
      CFF2PrivateDict_OpSerializer_calculate_serialized_size_def
      OpCode_Size_def Is_OpCode_ESC_def OpCode_shortint_def OpCode_Subrs_def OpCode_ESC_Base_def)

text \<open>
  C1. For each dict kind (top dict, font dict, private dict) and every operator, a
  successful \<open>serialize\<close> advances the cursor by exactly
  \<open>calculate_serialized_size\<close> of that operator, and \<open>serialize\<close> succeeds whenever
  that many bytes are left. The size function does not take the offset or size value
  that is embedded, and the statement holds for every such value.
\<close>

theorem C1_size_is_bytes_emitted:
  "(CFF2TopDict_OpSerializer_serialize opstr offs c = Some c1 \<longrightarrow>
      head c1 = head c + CFF2TopDict_OpSerializer_calculate_serialized_size opstr)
   \<and> (head c + CFF2TopDict_OpSerializer_calculate_serialized_size opstr \<le> room c \<longrightarrow>
      CFF2TopDict_OpSerializer_serialize opstr offs c \<noteq> None)
   \<and> (CFF2FontDict_OpSerializer_serialize opstr info c = Some c2 \<longrightarrow>
      head c2 = head c + CFF2FontDict_OpSerializer_calculate_serialized_size opstr)
   \<and> (head c + CFF2FontDict_OpSerializer_calculate_serialized_size opstr \<le> room c \<longrightarrow>
      CFF2FontDict_OpSerializer_serialize opstr info c \<noteq> None)
   \<and> (CFF2PrivateDict_OpSerializer_serialize opstr subrsOff c = Some c3 \<longrightarrow>
      head c3 = head c + CFF2PrivateDict_OpSerializer_calculate_serialized_size opstr)
   \<and> (head c + CFF2PrivateDict_OpSerializer_calculate_serialized_size opstr \<le> room c \<longrightarrow>
      CFF2PrivateDict_OpSerializer_serialize opstr subrsOff c \<noteq> None)"
proof -
  have top: "CFF2TopDict_OpSerializer_serialize opstr offs c = Some c1 \<longrightarrow>
      head c1 = head c + CFF2TopDict_OpSerializer_calculate_serialized_size opstr"
    by (auto simp: TopDict_op_embed embed_Some_iff head_def TopDict_op_length)
  have top_ok: "head c + CFF2TopDict_OpSerializer_calculate_serialized_size opstr \<le> room c \<longrightarrow>
      CFF2TopDict_OpSerializer_serialize opstr offs c \<noteq> None"
    by (simp add: TopDict_op_embed embed_None_iff TopDict_op_length)
  have font: "CFF2FontDict_OpSerializer_serialize opstr info c = Some c2 \<longrightarrow>
      head c2 = head c + CFF2FontDict_OpSerializer_calculate_serialized_size opstr"
    by (auto simp: FontDict_op_embed embed_Some_iff head_def FontDict_op_length)
  have font_ok: "head c + CFF2FontDict_OpSerializer_calculate_serialized_size opstr \<le> room c \<longrightarrow>
      CFF2FontDict_OpSerializer_serialize opstr info c \<noteq> None"
    by (simp add: FontDict_op_embed embed_None_iff FontDict_op_length)
  have priv: "CFF2PrivateDict_OpSerializer_serialize opstr subrsOff c = Some c3 \<longrightarrow>
      head c3 = head c + CFF2PrivateDict_OpSerializer_calculate_serialized_size opstr"
    by (auto simp: PrivateDict_op_embed embed_Some_iff head_def PrivateDict_op_length)
  have priv_ok: "head c + CFF2PrivateDict_OpSerializer_calculate_serialized_size opstr \<le> room c \<longrightarrow>
      CFF2PrivateDict_OpSerializer_serialize opstr subrsOff c \<noteq> None"
    by (simp add: PrivateDict_op_embed embed_None_iff PrivateDict_op_length)
  from top top_ok font font_ok priv priv_ok show ?thesis by blast
qed

theorem C1_size_is_bytes_emitted_witness:
  "CFF2TopDict_OpSerializer_serialize \<lparr>op = OpCode_FDArray, str = [139, 12, 36]\<rparr> example_offsets
       \<lparr>written = [], room = 7\<rparr>
     = Some \<lparr>written = [29, 0, 0, 0, 45, 12, 36], room = 7\<rparr>
   \<and> head \<lparr>written = [29, 0, 0, 0, 45, 12, 36], room = 7\<rparr>
     = head \<lparr>written = [], room = 7\<rparr>
       + CFF2TopDict_OpSerializer_calculate_serialized_size \<lparr>op = OpCode_FDArray, str = [139, 12, 36]\<rparr>
   \<and> CFF2FontDict_OpSerializer_serialize \<lparr>op = OpCode_Private, str = [145, 150, 18]\<rparr>
       \<lparr>offset = 76, size' = 6\<rparr> \<lparr>written = [], room = 9\<rparr>
     = Some \<lparr>written = [28, 0, 6, 29, 0, 0, 0, 76, 18], room = 9\<rparr>
   \<and> head \<lparr>written = [28, 0, 6, 29, 0, 0, 0, 76, 18], room = 9\<rparr>
     = head \<lparr>written = [], room = 9\<rparr>
       + CFF2FontDict_OpSerializer_calculate_serialized_size \<lparr>op = OpCode_Private, str = [145, 150, 18]\<rparr>
   \<and> CFF2PrivateDict_OpSerializer_serialize \<lparr>op = OpCode_Subrs, str = [141, 19]\<rparr> 6
       \<lparr>written = [], room = 4\<rparr>
     = Some \<lparr>written = [28, 0, 6, 19], room = 4\<rparr>
   \<and> head \<lparr>written = [28, 0, 6, 19], room = 4\<rparr>
     = head \<lparr>written = [], room = 4\<rparr>
       + CFF2PrivateDict_OpSerializer_calculate_serialized_size \<lparr>op = OpCode_Subrs, str = [141, 19]\<rparr>"
proof -
  let ?c7 = "\<lparr>written = [], room = 7\<rparr>"
  let ?c9 = "\<lparr>written = [], room = 9\<rparr>"
  let ?c4 = "\<lparr>written = [], room = 4\<rparr>"
  let ?top = "\<lparr>op = OpCode_FDArray, str = [139, 12, 36]\<rparr>"
  let ?font = "\<lparr>op = OpCode_Private, str = [145, 150, 18]\<rparr>"
  let ?priv = "\<lparr>op = OpCode_Subrs, str = [141, 19]\<rparr>"
  have r1: "head ?c7 + CFF2TopDict_OpSerializer_calculate_serialized_size ?top \<le> room ?c7"
    by (simp add: head_def CFF2TopDict_OpSerializer_calculate_serialized_size_def OpCode_Size_def
        Is_OpCode_ESC_def OpCode_FDArray_def OpCode_ESC_Base_def OpCode_longint_def)
  have r2: "head ?c9 + CFF2FontDict_OpSerializer_calculate_serialized_size ?font \<le> room ?c9"
    by (simp add: head_def CFF2FontDict_OpSerializer_calculate_serialized_size_def OpCode_Size_def
        Is_OpCode_ESC_def OpCode_Private_def OpCode_ESC_Base_def OpCode_longint_def
        OpCode_shortint_def)
  have r3: "head ?c4 + CFF2PrivateDict_OpSerializer_calculate_serialized_size ?priv \<le> room ?c4"
    by (simp add: head_def CFF2PrivateDict_OpSerializer_calculate_serialized_size_def
        OpCode_Size_def Is_OpCode_ESC_def OpCode_Subrs_def OpCode_ESC_Base_def OpCode_shortint_def)
  have s1: "CFF2TopDict_OpSerializer_serialize ?top example_offsets ?c7
              = Some \<lparr>written = [29, 0, 0, 0, 45, 12, 36], room = 7\<rparr>"
    by code_simp
  have s2: "CFF2FontDict_OpSerializer_serialize ?font \<lparr>offset = 76, size' = 6\<rparr> ?c9
              = Some \<lparr>written = [28, 0, 6, 29, 0, 0, 0, 76, 18], room = 9\<rparr>"
    by code_simp
  have s3: "CFF2PrivateDict_OpSerializer_serialize ?priv 6 ?c4
              = Some \<lparr>written = [28, 0, 6, 19], room = 4\<rparr>"
    by code_simp
  note t1 = C1_size_is_bytes_emitted [of ?top example_offsets ?c7
      "\<lparr>written = [29, 0, 0, 0, 45, 12, 36], room = 7\<rparr>"]
  note t2 = C1_size_is_bytes_emitted [of ?font _ ?c9 _ "\<lparr>offset = 76, size' = 6\<rparr>"
      "\<lparr>written = [28, 0, 6, 29, 0, 0, 0, 76, 18], room = 9\<rparr>"]
  note t3 = C1_size_is_bytes_emitted [of ?priv _ ?c4 _ _ _ 6 "\<lparr>written = [28, 0, 6, 19], room = 4\<rparr>"]
  from t1 s1 r1 t2 s2 r2 t3 s3 r3 show ?thesis by blast
qed

text \<open>
  C5. In the top dict the operators \<open>vstore\<close>, \<open>CharStrings\<close>, \<open>FDArray\<close> and
  \<open>FDSelect\<close> are written as the long-integer prefix, the four bytes of the new offset
  and the operator code, whatever bytes the operator had in the source; every other
  operator is written as the bytes it had in the source.
\<close>

theorem C5_top_dict_offsets_forced_others_copied:
  "(op opstr = OpCode_vstore \<longrightarrow>
      CFF2TopDict_OpSerializer_serialize opstr offs c
        = embed (of_nat OpCode_longint # be_bytes 4 (varStoreOffset offs)
                 @ opcode_bytes OpCode_vstore) c)
   \<and> (op opstr = OpCode_CharStrings \<longrightarrow>
      CFF2TopDict_OpSerializer_serialize opstr offs c
        = embed (of_nat OpCode_longint # be_bytes 4 (charStringsOffset offs)
                 @ opcode_bytes OpCode_CharStrings) c)
   \<and> (op opstr = OpCode_FDArray \<longrightarrow>
      CFF2TopDict_OpSerializer_serialize opstr offs c
        = embed (of_nat OpCode_longint # be_bytes 4 (FDArrayOffset offs)
                 @ opcode_bytes OpCode_FDArray) c)
   \<and> (op opstr = OpCode_FDSelect \<longrightarrow>
      CFF2TopDict_OpSerializer_serialize opstr offs c
        = embed (of_nat OpCode_longint # be_bytes 4 (offset (FDSelectInfo offs))
                 @ opcode_bytes OpCode_FDSelect) c)
   \<and> (op opstr \<noteq> OpCode_vstore \<and> op opstr \<noteq> OpCode_CharStrings
        \<and> op opstr \<noteq> OpCode_FDArray \<and> op opstr \<noteq> OpCode_FDSelect \<longrightarrow>
      CFF2TopDict_OpSerializer_serialize opstr offs c = embed (str opstr) c)"
  by (simp add: CFF2TopDict_OpSerializer_serialize_def serialize_offset4_op_embed copy_opstr_def
      OpCode_vstore_def OpCode_CharStrings_def OpCode_FDArray_def OpCode_FDSelect_def
      OpCode_ESC_Base_def)

theorem C5_top_dict_offsets_forced_others_copied_witness:
  "op \<lparr>op = OpCode_vstore, str = [141, 24]\<rparr> = OpCode_vstore
   \<and> CFF2TopDict_OpSerializer_serialize \<lparr>op = OpCode_vstore, str = [141, 24]\<rparr> example_offsets
        \<lparr>written = [], room = 6\<rparr>
      = Some \<lparr>written = [29, 0, 0, 0, 38, 24], room = 6\<rparr>
   \<and> op \<lparr>op = OpCode_CharStrings, str = [28, 0, 50, 17]\<rparr> = OpCode_CharStrings
   \<and> CFF2TopDict_OpSerializer_serialize \<lparr>op = OpCode_CharStrings, str = [28, 0, 50, 17]\<rparr>
        example_offsets \<lparr>written = [], room = 6\<rparr>
      = Some \<lparr>written = [29, 0, 0, 0, 61, 17], room = 6\<rparr>
   \<and> op \<lparr>op = OpCode_FDArray, str = [139, 12, 36]\<rparr> = OpCode_FDArray
   \<and> CFF2TopDict_OpSerializer_serialize \<lparr>op = OpCode_FDArray, str = [139, 12, 36]\<rparr>
        example_offsets \<lparr>written = [], room = 7\<rparr>
      = Some \<lparr>written = [29, 0, 0, 0, 45, 12, 36], room = 7\<rparr>
   \<and> op \<lparr>op = OpCode_FDSelect, str = [140, 12, 37]\<rparr> = OpCode_FDSelect
   \<and> CFF2TopDict_OpSerializer_serialize \<lparr>op = OpCode_FDSelect, str = [140, 12, 37]\<rparr>
        example_offsets \<lparr>written = [], room = 7\<rparr>
      = Some \<lparr>written = [29, 0, 0, 0, 42, 12, 37], room = 7\<rparr>
   \<and> op \<lparr>op = 263, str = [139, 12, 7]\<rparr> \<noteq> OpCode_vstore
   \<and> op \<lparr>op = 263, str = [139, 12, 7]\<rparr> \<noteq> OpCode_CharStrings
   \<and> op \<lparr>op = 263, str = [139, 12, 7]\<rparr> \<noteq> OpCode_FDArray
   \<and> op \<lparr>op = 263, str = [139, 12, 7]\<rparr> \<noteq> OpCode_FDSelect
   \<and> CFF2TopDict_OpSerializer_serialize \<lparr>op = 263, str = [139, 12, 7]\<rparr>
        example_offsets \<lparr>written = [], room = 3\<rparr>
      = Some \<lparr>written = [139, 12, 7], room = 3\<rparr>"
proof -
  have ops: "op \<lparr>op = 263, str = [139, 12, 7]\<rparr> \<noteq> OpCode_vstore
     \<and> op \<lparr>op = 263, str = [139, 12, 7]\<rparr> \<noteq> OpCode_CharStrings
     \<and> op \<lparr>op = 263, str = [139, 12, 7]\<rparr> \<noteq> OpCode_FDArray
     \<and> op \<lparr>op = 263, str = [139, 12, 7]\<rparr> \<noteq> OpCode_FDSelect"
    by (simp add: OpCode_vstore_def OpCode_CharStrings_def OpCode_FDArray_def
        OpCode_FDSelect_def OpCode_ESC_Base_def)
  have e1: "embed (of_nat OpCode_longint # be_bytes 4 (varStoreOffset example_offsets)
                 @ opcode_bytes OpCode_vstore) \<lparr>written = [], room = 6\<rparr>
            = Some \<lparr>written = [29, 0, 0, 0, 38, 24], room = 6\<rparr>"
    by code_simp
  have e2: "embed (of_nat OpCode_longint # be_bytes 4 (charStringsOffset example_offsets)
                 @ opcode_bytes OpCode_CharStrings) \<lparr>written = [], room = 6\<rparr>
            = Some \<lparr>written = [29, 0, 0, 0, 61, 17], room = 6\<rparr>"
    by code_simp
  have e3: "embed (of_nat OpCode_longint # be_bytes 4 (FDArrayOffset example_offsets)
                 @ opcode_bytes OpCode_FDArray) \<lparr>written = [], room = 7\<rparr>
            = Some \<lparr>written = [29, 0, 0, 0, 45, 12, 36], room = 7\<rparr>"
    by code_simp
  have e4: "embed (of_nat OpCode_longint # be_bytes 4 (offset (FDSelectInfo example_offsets))
                 @ opcode_bytes OpCode_FDSelect) \<lparr>written = [], room = 7\<rparr>
            = Some \<lparr>written = [29, 0, 0, 0, 42, 12, 37], room = 7\<rparr>"
    by code_simp
  have e5: "embed (str \<lparr>op = 263, str = [139, 12, 7]\<rparr>) \<lparr>written = [], room = 3\<rparr>
            = Some \<lparr>written = [139, 12, 7], room = 3\<rparr>"
    by code_simp
  note t1 = C5_top_dict_offsets_forced_others_copied
      [of "\<lparr>op = OpCode_vstore, str = [141, 24]\<rparr>" example_offsets "\<lparr>written = [], room = 6\<rparr>"]
  note t2 = C5_top_dict_offsets_forced_others_copied
      [of "\<lparr>op = OpCode_CharStrings, str = [28, 0, 50, 17]\<rparr>" example_offsets
          "\<lparr>written = [], room = 6\<rparr>"]
  note t3 = C5_top_dict_offsets_forced_others_copied
      [of "\<lparr>op = OpCode_FDArray, str = [139, 12, 36]\<rparr>" example_offsets
          "\<lparr>written = [], room = 7\<rparr>"]
  note t4 = C5_top_dict_offsets_forced_others_copied
      [of "\<lparr>op = OpCode_FDSelect, str = [140, 12, 37]\<rparr>" example_offsets
          "\<lparr>written = [], room = 7\<rparr>"]
  note t5 = C5_top_dict_offsets_forced_others_copied
      [of "\<lparr>op = 263, str = [139, 12, 7]\<rparr>" example_offsets "\<lparr>written = [], room = 3\<rparr>"]
  from t1 e1 have g1: "CFF2TopDict_OpSerializer_serialize \<lparr>op = OpCode_vstore, str = [141, 24]\<rparr>
        example_offsets \<lparr>written = [], room = 6\<rparr> = Some \<lparr>written = [29, 0, 0, 0, 38, 24], room = 6\<rparr>"
    by simp
  from t2 e2 have g2: "CFF2TopDict_OpSerializer_serialize \<lparr>op = OpCode_CharStrings, str = [28, 0, 50, 17]\<rparr>
        example_offsets \<lparr>written = [], room = 6\<rparr> = Some \<lparr>written = [29, 0, 0, 0, 61, 17], room = 6\<rparr>"
    by simp
  from t3 e3 have g3: "CFF2TopDict_OpSerializer_serialize \<lparr>op = OpCode_FDArray, str = [139, 12, 36]\<rparr>
        example_offsets \<lparr>written = [], room = 7\<rparr> = Some \<lparr>written = [29, 0, 0, 0, 45, 12, 36], room = 7\<rparr>"
    by simp
  from t4 e4 have g4: "CFF2TopDict_OpSerializer_serialize \<lparr>op = OpCode_FDSelect, str = [140, 12, 37]\<rparr>
        example_offsets \<lparr>written = [], room = 7\<rparr> = Some \<lparr>written = [29, 0, 0, 0, 42, 12, 37], room = 7\<rparr>"
    by simp
  from t5 e5 ops have g5: "CFF2TopDict_OpSerializer_serialize \<lparr>op = 263, str = [139, 12, 7]\<rparr>
        example_offsets \<lparr>written = [], room = 3\<rparr> = Some \<lparr>written = [139, 12, 7], room = 3\<rparr>"
    by simp
  from g1 g2 g3 g4 g5 ops show ?thesis by simp
qed

subsection \<open>Offset sizes and the selector remapper\<close>

lemma calcOffSize_pos: "1 \<le> calcOffSize v"
  by (induction v rule: calcOffSize.induct) (subst calcOffSize.simps, simp)

lemma calcOffSize_holds: "v < 256 ^ calcOffSize v"
proof (induction v rule: calcOffSize.induct)
  case (1 v)
  show ?case
  proof (cases "v < 256")
    case True
    then show ?thesis by (subst calcOffSize.simps) simp
  next
    case False
    with 1 have "v div 256 < 256 ^ calcOffSize (v div 256)" by simp
    then have "v < 256 * 256 ^ calcOffSize (v div 256)"
      by (simp add: less_mult_imp_div_less mult.commute div_less_iff_less_mult)
    with False show ?thesis by (subst calcOffSize.simps) simp
  qed
qed

lemma calcOffSize_least: "1 \<le> w \<Longrightarrow> v < 256 ^ w \<Longrightarrow> calcOffSize v \<le> w"
proof (induction v arbitrary: w rule: calcOffSize.induct)
  case (1 v)
  show ?case
  proof (cases "v < 256")
    case True
    with 1(2) show ?thesis by (subst calcOffSize.simps) simp
  next
    case False
    from 1(2) obtain w' where w: "w = Suc w'" by (cases w) auto
    have "w' \<noteq> 0" using False 1(3) w by (cases w') auto
    then have w1: "1 \<le> w'" by simp
    have "v div 256 < 256 ^ w'" using 1(3) w
      by (simp add: less_mult_imp_div_less mult.commute div_less_iff_less_mult)
    with 1(1)[OF False w1] have "calcOffSize (v div 256) \<le> w'" by simp
    with False w show ?thesis by (subst calcOffSize.simps) simp
  qed
qed

lemma seen_order_set: "set (seen_order fds seen) = set fds \<union> set seen"
  by (induction fds arbitrary: seen) auto

lemma seen_order_distinct: "distinct seen \<Longrightarrow> distinct (seen_order fds seen)"
  by (induction fds arbitrary: seen) auto

lemma length_seen_order: "length (seen_order fds []) = card (set fds)"
proof -
  have "distinct (seen_order fds [])" by (simp add: seen_order_distinct)
  then have "length (seen_order fds []) = card (set (seen_order fds []))"
    by (simp add: distinct_card)
  then show ?thesis by (simp add: seen_order_set)
qed

lemma card_bounded_le: "\<forall>x\<in>S. x < (n::nat) \<Longrightarrow> card S \<le> n"
proof -
  assume "\<forall>x\<in>S. x < n"
  then have "S \<subseteq> {..<n}" by auto
  then have "card S \<le> card {..<n}" by (intro card_mono) auto
  then show ?thesis by simp
qed

lemma hb_plan_subset_cff_fdselect_count:
  assumes "hb_plan_subset_cff_fdselect glyphs fdCount sel = Some (k, sz, fmt, fg, fm)"
  shows "k = card (get_fd sel ` set glyphs)" and "k \<le> fdCount"
proof -
  from assms have ok: "\<not> list_ex (\<lambda>fd. fdCount \<le> fd) (map (get_fd sel) glyphs)"
    and k: "k = length (seen_order (map (get_fd sel) glyphs) [])"
    by (auto simp: hb_plan_subset_cff_fdselect_def Let_def split: if_splits)
  from k show "k = card (get_fd sel ` set glyphs)" by (simp add: length_seen_order)
  from ok have "\<forall>x\<in>get_fd sel ` set glyphs. x < fdCount"
    by (auto simp: list_ex_iff not_le)
  then have "card (get_fd sel ` set glyphs) \<le> fdCount" by (rule card_bounded_le)
  with k show "k \<le> fdCount" by (simp add: length_seen_order)
qed

subsection \<open>The plan\<close>

lemma create_privateDicts_offsets [simp]:
  "offsets (create_privateDicts pds p) = offsets p"
  by (induction pds arbitrary: p) (simp_all add: Let_def)

lemma create_privateDicts_orig_fdcount [simp]:
  "orig_fdcount (create_privateDicts pds p) = orig_fdcount p"
  by (induction pds arbitrary: p) (simp_all add: Let_def)

lemma create_privateDicts_subst_fdcount [simp]:
  "subst_fdcount (create_privateDicts pds p) = subst_fdcount p"
  by (induction pds arbitrary: p) (simp_all add: Let_def)

lemma create_privateDicts_fdmap [simp]:
  "fdmap (create_privateDicts pds p) = fdmap p"
  by (induction pds arbitrary: p) (simp_all add: Let_def)

lemma create_privateDicts_format [simp]:
  "subst_fdselect_format (create_privateDicts pds p) = subst_fdselect_format p"
  by (induction pds arbitrary: p) (simp_all add: Let_def)

lemma create_privateDicts_first_glyphs [simp]:
  "subst_fdselect_first_glyphs (create_privateDicts pds p) = subst_fdselect_first_glyphs p"
  by (induction pds arbitrary: p) (simp_all add: Let_def)

lemma create_privateDicts_charstrings [simp]:
  "subset_charstrings (create_privateDicts pds p) = subset_charstrings p"
  by (induction pds arbitrary: p) (simp_all add: Let_def)

lemma create_privateDicts_final_size:
  "final_size (create_privateDicts pds p)
     = final_size p + sum_list (map (\<lambda>pd. PrivateDict_size pd + get_size (localSubrs pd)) pds)"
  by (induction pds arbitrary: p) (simp_all add: Let_def PrivateDict_size_def)

lemma create_privateDicts_infos_size:
  "map size' (privateDictInfos (create_privateDicts pds p))
     = map size' (privateDictInfos p) @ map PrivateDict_size pds"
  by (induction pds arbitrary: p) (simp_all add: Let_def PrivateDict_size_def)

lemma create_privateDicts_infos_length:
  "length (privateDictInfos (create_privateDicts pds p)) = length (privateDictInfos p) + length pds"
  using create_privateDicts_infos_size [of pds p, THEN arg_cong, of length] by simp

text \<open>The plan before the private dicts are placed.\<close>

lemma create_SomeD:
  assumes "create acc glyphs = Some plan"
  obtains p where
    "create_FDSelect acc glyphs (create_varStore acc (create_top acc cff2_subset_plan_init)) = Some p"
    and "plan = create_privateDicts
           (map (vec_at Null_PrivateDictValues (privateDicts acc)) [0..<orig_fdcount p])
           ((create_CharStrings acc glyphs (create_FDArray acc p))
              \<lparr>offsets := (offsets (create_CharStrings acc glyphs (create_FDArray acc p)))
                  \<lparr>privateDictsOffset := final_size (create_CharStrings acc glyphs (create_FDArray acc p))\<rparr>\<rparr>)"
  using assms
  by (auto simp: create_def Let_def create_CharStrings_def create_FDArray_def split: option.splits)

lemma create_top_simps:
  "final_size (create_top acc cff2_subset_plan_init) = cff2_static_size + TopDict_size acc + get_size (globalSubrs acc)"
  "offsets (create_top acc cff2_subset_plan_init) = CFF2SubTableOffsets_init\<lparr>topDictSize := TopDict_size acc\<rparr>"
  "orig_fdcount (create_top acc cff2_subset_plan_init) = fdArray_count acc"
  "subst_fdcount (create_top acc cff2_subset_plan_init) = 1"
  "fdmap (create_top acc cff2_subset_plan_init) = []"
  "subset_charstrings (create_top acc cff2_subset_plan_init) = []"
  "privateDictInfos (create_top acc cff2_subset_plan_init) = []"
  by (simp_all add: create_top_def cff2_subset_plan_init_def Let_def TopDict_size_def)

lemma create_varStore_simps:
  "final_size (create_varStore acc p) = final_size p + get_size (varStore acc)"
  "orig_fdcount (create_varStore acc p) = orig_fdcount p"
  "subst_fdcount (create_varStore acc p) = subst_fdcount p"
  "fdmap (create_varStore acc p) = fdmap p"
  "subset_charstrings (create_varStore acc p) = subset_charstrings p"
  "privateDictInfos (create_varStore acc p) = privateDictInfos p"
  "topDictSize (offsets (create_varStore acc p)) = topDictSize (offsets p)"
  by (simp_all add: create_varStore_def Let_def get_size_def split: option.splits)

lemma create_varStore_offset:
  "varStore acc \<noteq> None \<Longrightarrow> varStoreOffset (offsets (create_varStore acc p)) = final_size p"
  by (auto simp: create_varStore_def Let_def)

lemma create_FDSelect_None:
  "fdSelect acc = None \<Longrightarrow> create_FDSelect acc glyphs p = Some p"
  by (simp add: create_FDSelect_def)

lemma create_FDSelect_Some:
  assumes "fdSelect acc = Some sel" and "create_FDSelect acc glyphs p = Some q"
  obtains k sz fmt fg fm where
    "hb_plan_subset_cff_fdselect glyphs (orig_fdcount p) sel = Some (k, sz, fmt, fg, fm)"
    and "subst_fdcount q = k" and "orig_fdcount q = orig_fdcount p"
    and "subst_fdselect_format q = fmt" and "subst_fdselect_first_glyphs q = fg" and "fdmap q = fm"
    and "offset (FDSelectInfo (offsets q)) = final_size p"
    and "size' (FDSelectInfo (offsets q))
           = (if k < orig_fdcount p then sz else FDSelect_calculate_serialized_size sel (num_glyphs acc))"
    and "final_size q = final_size p + size' (FDSelectInfo (offsets q))"
    and "topDictSize (offsets q) = topDictSize (offsets p)"
    and "varStoreOffset (offsets q) = varStoreOffset (offsets p)"
    and "subset_charstrings q = subset_charstrings p"
    and "privateDictInfos q = privateDictInfos p"
  using assms
  by (auto simp: create_FDSelect_def Let_def is_fds_subsetted_def split: option.splits if_splits)

lemma create_FDArray_simps:
  "final_size (create_FDArray acc p) = final_size p
     + snd (CFF2FDArray_calculate_serialized_size (fontDicts acc) (subst_fdcount p) (fdmap p)
              CFF2FontDict_OpSerializer_calculate_serialized_size)"
  "FDArrayOffset (offsets (create_FDArray acc p)) = final_size p"
  "FDArrayOffSize (offsets (create_FDArray acc p))
     = fst (CFF2FDArray_calculate_serialized_size (fontDicts acc) (subst_fdcount p) (fdmap p)
              CFF2FontDict_OpSerializer_calculate_serialized_size)"
  "topDictSize (offsets (create_FDArray acc p)) = topDictSize (offsets p)"
  "varStoreOffset (offsets (create_FDArray acc p)) = varStoreOffset (offsets p)"
  "FDSelectInfo (offsets (create_FDArray acc p)) = FDSelectInfo (offsets p)"
  "orig_fdcount (create_FDArray acc p) = orig_fdcount p"
  "subst_fdcount (create_FDArray acc p) = subst_fdcount p"
  "fdmap (create_FDArray acc p) = fdmap p"
  "subst_fdselect_format (create_FDArray acc p) = subst_fdselect_format p"
  "subst_fdselect_first_glyphs (create_FDArray acc p) = subst_fdselect_first_glyphs p"
  "subset_charstrings (create_FDArray acc p) = subset_charstrings p"
  "privateDictInfos (create_FDArray acc p) = privateDictInfos p"
  by (simp_all add: create_FDArray_def Let_def)

lemma sum_list_length_map:
  "sum_list (map length (map f xs)) = sum_list (map (\<lambda>x. length (f x)) xs)"
  by (simp add: comp_def)

lemma create_CharStrings_simps:
  "final_size (create_CharStrings acc glyphs p) = final_size p
     + Index_calculate_serialized_size (calcOffSize (CharStrings_dataSize acc glyphs + 1))
         (length glyphs) (CharStrings_dataSize acc glyphs)"
  "charStringsOffset (offsets (create_CharStrings acc glyphs p)) = final_size p"
  "charStringsOffSize (offsets (create_CharStrings acc glyphs p))
     = calcOffSize (CharStrings_dataSize acc glyphs + 1)"
  "topDictSize (offsets (create_CharStrings acc glyphs p)) = topDictSize (offsets p)"
  "varStoreOffset (offsets (create_CharStrings acc glyphs p)) = varStoreOffset (offsets p)"
  "FDSelectInfo (offsets (create_CharStrings acc glyphs p)) = FDSelectInfo (offsets p)"
  "FDArrayOffset (offsets (create_CharStrings acc glyphs p)) = FDArrayOffset (offsets p)"
  "FDArrayOffSize (offsets (create_CharStrings acc glyphs p)) = FDArrayOffSize (offsets p)"
  "orig_fdcount (create_CharStrings acc glyphs p) = orig_fdcount p"
  "subst_fdcount (create_CharStrings acc glyphs p) = subst_fdcount p"
  "fdmap (create_CharStrings acc glyphs p) = fdmap p"
  "subst_fdselect_format (create_CharStrings acc glyphs p) = subst_fdselect_format p"
  "subst_fdselect_first_glyphs (create_CharStrings acc glyphs p) = subst_fdselect_first_glyphs p"
  "subset_charstrings (create_CharStrings acc glyphs p)
     = subset_charstrings p @ map (vec_at [] (charStrings acc)) glyphs"
  "privateDictInfos (create_CharStrings acc glyphs p) = privateDictInfos p"
  by (simp_all add: create_CharStrings_def Let_def CharStrings_dataSize_def comp_def)

text \<open>The plan up to the selector.\<close>

lemma create_FDSelect_common:
  assumes "create_FDSelect acc glyphs p = Some q"
  shows "orig_fdcount q = orig_fdcount p"
    and "topDictSize (offsets q) = topDictSize (offsets p)"
    and "varStoreOffset (offsets q) = varStoreOffset (offsets p)"
    and "subset_charstrings q = subset_charstrings p"
    and "privateDictInfos q = privateDictInfos p"
    and "final_size q = final_size p + FDSelect_size q acc"
    and "fdSelect acc = None \<Longrightarrow> q = p"
    and "fdSelect acc \<noteq> None \<Longrightarrow> offset (FDSelectInfo (offsets q)) = final_size p"
proof -
  show "orig_fdcount q = orig_fdcount p"
    and "topDictSize (offsets q) = topDictSize (offsets p)"
    and "varStoreOffset (offsets q) = varStoreOffset (offsets p)"
    and "subset_charstrings q = subset_charstrings p"
    and "privateDictInfos q = privateDictInfos p"
    and "final_size q = final_size p + FDSelect_size q acc"
    and "fdSelect acc \<noteq> None \<Longrightarrow> offset (FDSelectInfo (offsets q)) = final_size p"
    using assms
    by (cases "fdSelect acc";
        auto simp: create_FDSelect_None FDSelect_size_def elim!: create_FDSelect_Some)+
  show "fdSelect acc = None \<Longrightarrow> q = p"
    using assms by (simp add: create_FDSelect_None)
qed

text \<open>What a successful \<open>create\<close> recorded, field by field.\<close>

lemma create_fields:
  assumes "create acc glyphs = Some plan"
  shows create_orig_fdcount: "orig_fdcount plan = fdArray_count acc"
    and create_topDictSize: "topDictSize (offsets plan) = TopDict_size acc"
    and create_varStoreOffset: "varStore acc \<noteq> None \<Longrightarrow>
          varStoreOffset (offsets plan)
            = cff2_static_size + TopDict_size acc + get_size (globalSubrs acc)"
    and create_FDSelectOffset: "fdSelect acc \<noteq> None \<Longrightarrow>
          offset (FDSelectInfo (offsets plan))
            = cff2_static_size + TopDict_size acc + get_size (globalSubrs acc)
              + get_size (varStore acc)"
    and create_FDArrayOffset: "FDArrayOffset (offsets plan)
            = cff2_static_size + TopDict_size acc + get_size (globalSubrs acc)
              + get_size (varStore acc) + FDSelect_size plan acc"
    and create_FDArrayOffSize: "FDArrayOffSize (offsets plan)
            = fst (CFF2FDArray_calculate_serialized_size (fontDicts acc) (subst_fdcount plan)
                     (fdmap plan) CFF2FontDict_OpSerializer_calculate_serialized_size)"
    and create_charStringsOffset: "charStringsOffset (offsets plan)
            = FDArrayOffset (offsets plan) + FDArray_size plan acc"
    and create_charStringsOffSize: "charStringsOffSize (offsets plan)
            = calcOffSize (CharStrings_dataSize acc glyphs + 1)"
    and create_subset_charstrings: "subset_charstrings plan
            = map (vec_at [] (charStrings acc)) glyphs"
    and create_privateDictsOffset: "privateDictsOffset (offsets plan)
            = charStringsOffset (offsets plan) + CharStrings_size plan acc glyphs"
    and create_privateDictInfos: "map size' (privateDictInfos plan)
            = map PrivateDict_size
                (map (vec_at Null_PrivateDictValues (privateDicts acc)) [0..<fdArray_count acc])"
    and create_final_size: "final_size plan
            = privateDictsOffset (offsets plan)
              + sum_list (map (\<lambda>pd. PrivateDict_size pd + get_size (localSubrs pd))
                    (map (vec_at Null_PrivateDictValues (privateDicts acc))
                         [0..<fdArray_count acc]))"
proof -
  let ?p0 = "create_varStore acc (create_top acc cff2_subset_plan_init)"
  from assms obtain p where
    sel: "create_FDSelect acc glyphs ?p0 = Some p"
    and plan: "plan = create_privateDicts
           (map (vec_at Null_PrivateDictValues (privateDicts acc)) [0..<orig_fdcount p])
           ((create_CharStrings acc glyphs (create_FDArray acc p))
              \<lparr>offsets := (offsets (create_CharStrings acc glyphs (create_FDArray acc p)))
                  \<lparr>privateDictsOffset := final_size (create_CharStrings acc glyphs (create_FDArray acc p))\<rparr>\<rparr>)"
    by (rule create_SomeD)
  note s = create_FDSelect_common [OF sel]
  have orig: "orig_fdcount p = fdArray_count acc"
    by (simp add: s create_varStore_simps create_top_simps)
  have fs0: "final_size ?p0
      = cff2_static_size + TopDict_size acc + get_size (globalSubrs acc) + get_size (varStore acc)"
    by (simp add: create_varStore_simps create_top_simps)
  have selsize: "FDSelect_size plan acc = FDSelect_size p acc"
    by (simp add: plan FDSelect_size_def create_CharStrings_simps create_FDArray_simps
        split: option.splits)
  show "orig_fdcount plan = fdArray_count acc"
    by (simp add: plan create_CharStrings_simps create_FDArray_simps orig)
  show "topDictSize (offsets plan) = TopDict_size acc"
    by (simp add: plan create_CharStrings_simps create_FDArray_simps s create_varStore_simps
        create_top_simps)
  show "varStoreOffset (offsets plan)
          = cff2_static_size + TopDict_size acc + get_size (globalSubrs acc)"
    if "varStore acc \<noteq> None"
    using that
    by (simp add: plan create_CharStrings_simps create_FDArray_simps s create_varStore_offset
        create_top_simps)
  show "offset (FDSelectInfo (offsets plan))
          = cff2_static_size + TopDict_size acc + get_size (globalSubrs acc)
            + get_size (varStore acc)"
    if "fdSelect acc \<noteq> None"
    using that s(8) by (simp add: plan create_CharStrings_simps create_FDArray_simps fs0)
  show "FDArrayOffset (offsets plan)
          = cff2_static_size + TopDict_size acc + get_size (globalSubrs acc)
            + get_size (varStore acc) + FDSelect_size plan acc"
    by (simp add: selsize) (simp add: plan create_CharStrings_simps create_FDArray_simps s fs0)
  show "FDArrayOffSize (offsets plan)
          = fst (CFF2FDArray_calculate_serialized_size (fontDicts acc) (subst_fdcount plan)
                   (fdmap plan) CFF2FontDict_OpSerializer_calculate_serialized_size)"
    by (simp add: plan create_CharStrings_simps create_FDArray_simps)
  show "charStringsOffset (offsets plan) = FDArrayOffset (offsets plan) + FDArray_size plan acc"
    by (simp add: plan create_CharStrings_simps create_FDArray_simps FDArray_size_def)
  show "charStringsOffSize (offsets plan) = calcOffSize (CharStrings_dataSize acc glyphs + 1)"
    by (simp add: plan create_CharStrings_simps)
  show "subset_charstrings plan = map (vec_at [] (charStrings acc)) glyphs"
    by (simp add: plan create_CharStrings_simps create_FDArray_simps s create_varStore_simps
        create_top_simps)
  show "privateDictsOffset (offsets plan)
          = charStringsOffset (offsets plan) + CharStrings_size plan acc glyphs"
    by (simp add: plan create_CharStrings_simps CharStrings_size_def)
  show "map size' (privateDictInfos plan)
          = map PrivateDict_size
              (map (vec_at Null_PrivateDictValues (privateDicts acc)) [0..<fdArray_count acc])"
    by (simp add: plan create_privateDicts_infos_size create_CharStrings_simps
        create_FDArray_simps s create_varStore_simps create_top_simps orig)
  show "final_size plan
          = privateDictsOffset (offsets plan)
            + sum_list (map (\<lambda>pd. PrivateDict_size pd + get_size (localSubrs pd))
                  (map (vec_at Null_PrivateDictValues (privateDicts acc))
                       [0..<fdArray_count acc]))"
    by (simp add: plan create_privateDicts_final_size orig)
qed

lemma create_no_selector:
  assumes "create acc glyphs = Some plan" and "fdSelect acc = None"
  shows "subst_fdcount plan = 1" and "fdmap plan = []"
proof -
  let ?p0 = "create_varStore acc (create_top acc cff2_subset_plan_init)"
  from assms(1) obtain p where
    sel: "create_FDSelect acc glyphs ?p0 = Some p"
    and plan: "plan = create_privateDicts
           (map (vec_at Null_PrivateDictValues (privateDicts acc)) [0..<orig_fdcount p])
           ((create_CharStrings acc glyphs (create_FDArray acc p))
              \<lparr>offsets := (offsets (create_CharStrings acc glyphs (create_FDArray acc p)))
                  \<lparr>privateDictsOffset := final_size (create_CharStrings acc glyphs (create_FDArray acc p))\<rparr>\<rparr>)"
    by (rule create_SomeD)
  from create_FDSelect_common(7) [OF sel assms(2)] have p: "p = ?p0" .
  show "subst_fdcount plan = 1"
    by (simp add: plan create_CharStrings_simps create_FDArray_simps p create_varStore_simps
        create_top_simps)
  show "fdmap plan = []"
    by (simp add: plan create_CharStrings_simps create_FDArray_simps p create_varStore_simps
        create_top_simps)
qed

lemma create_with_selector:
  assumes "create acc glyphs = Some plan" and "fdSelect acc = Some sel"
  obtains sz fmt where
    "hb_plan_subset_cff_fdselect glyphs (fdArray_count acc) sel
       = Some (subst_fdcount plan, sz, fmt, subst_fdselect_first_glyphs plan, fdmap plan)"
    and "subst_fdselect_format plan = fmt"
    and "size' (FDSelectInfo (offsets plan))
           = (if subst_fdcount plan < fdArray_count acc then sz
              else FDSelect_calculate_serialized_size sel (num_glyphs acc))"
proof -
  let ?p0 = "create_varStore acc (create_top acc cff2_subset_plan_init)"
  from assms(1) obtain p where
    sel: "create_FDSelect acc glyphs ?p0 = Some p"
    and plan: "plan = create_privateDicts
           (map (vec_at Null_PrivateDictValues (privateDicts acc)) [0..<orig_fdcount p])
           ((create_CharStrings acc glyphs (create_FDArray acc p))
              \<lparr>offsets := (offsets (create_CharStrings acc glyphs (create_FDArray acc p)))
                  \<lparr>privateDictsOffset := final_size (create_CharStrings acc glyphs (create_FDArray acc p))\<rparr>\<rparr>)"
    by (rule create_SomeD)
  have o0: "orig_fdcount ?p0 = fdArray_count acc"
    by (simp add: create_varStore_simps create_top_simps)
  from assms(2) sel obtain k sz fmt fg fm where
    h: "hb_plan_subset_cff_fdselect glyphs (orig_fdcount ?p0) sel = Some (k, sz, fmt, fg, fm)"
    and f: "subst_fdcount p = k" "subst_fdselect_format p = fmt"
      "subst_fdselect_first_glyphs p = fg" "fdmap p = fm"
      "size' (FDSelectInfo (offsets p))
           = (if k < orig_fdcount ?p0 then sz
              else FDSelect_calculate_serialized_size sel (num_glyphs acc))"
    by (rule create_FDSelect_Some)
  have 1: "hb_plan_subset_cff_fdselect glyphs (fdArray_count acc) sel
       = Some (subst_fdcount plan, sz, fmt, subst_fdselect_first_glyphs plan, fdmap plan)"
    using h by (simp add: o0 plan create_CharStrings_simps create_FDArray_simps f)
  have 2: "subst_fdselect_format plan = fmt"
    by (simp add: plan create_CharStrings_simps create_FDArray_simps f)
  have 3: "size' (FDSelectInfo (offsets plan))
           = (if subst_fdcount plan < fdArray_count acc then sz
              else FDSelect_calculate_serialized_size sel (num_glyphs acc))"
    using f(5) by (simp add: o0 plan create_CharStrings_simps create_FDArray_simps f(1))
  from 1 2 3 show thesis by (rule that)
qed

subsection \<open>Evaluating the examples\<close>

lemma be_bytes_numeral:
  "be_bytes 1 v = [of_nat v]"
  "be_bytes 2 v = [of_nat (v div 256), of_nat v]"
  "be_bytes 4 v = [of_nat (v div 256 div 256 div 256), of_nat (v div 256 div 256),
                   of_nat (v div 256), of_nat v]"
proof -
  have n: "(1::nat) = Suc 0" "(2::nat) = Suc (Suc 0)" "(4::nat) = Suc (Suc (Suc (Suc 0)))"
    by simp_all
  show "be_bytes 1 v = [of_nat v]" by (subst n) simp
  show "be_bytes 2 v = [of_nat (v div 256), of_nat v]" by (subst n) simp
  show "be_bytes 4 v = [of_nat (v div 256 div 256 div 256), of_nat (v div 256 div 256),
                   of_nat (v div 256), of_nat v]" by (subst n) simp
qed

lemma calcOffSize_small: "v < 256 \<Longrightarrow> calcOffSize v = 1"
  by (subst calcOffSize.simps) simp

lemmas eval_defs =
  be_bytes_numeral embed_def head_def or_fail_def and_then_def assert_head_def copy_section_def
  vec_at_def get_size_def
  OpCode_CharStrings_def OpCode_Private_def OpCode_Subrs_def OpCode_vstore_def
  OpCode_shortint_def OpCode_longint_def OpCode_escape_def OpCode_ESC_Base_def
  OpCode_FDArray_def OpCode_FDSelect_def Is_OpCode_ESC_def OpCode_Size_def opcode_bytes_def
  serialize_int2_def serialize_int4_def serialize_offset2_op_def serialize_offset4_op_def
  copy_opstr_def
  CFF2TopDict_OpSerializer_serialize_def CFF2TopDict_OpSerializer_calculate_serialized_size_def
  CFF2FontDict_OpSerializer_serialize_def CFF2FontDict_OpSerializer_calculate_serialized_size_def
  CFF2PrivateDict_OpSerializer_serialize_def
  CFF2PrivateDict_OpSerializer_calculate_serialized_size_def
  Dict_calculate_serialized_size_def Index_min_size_def Index_calculate_offset_array_size_def
  Index_calculate_serialized_size_def Index_serialize_def
  get_fd_def FDSelect_calculate_serialized_size_def FDSelect_serialize_def
  fdselect_dense_size_def fdselect_ranged_size_def hb_plan_subset_cff_fdselect_def
  remapped_fd_def hb_serialize_cff_fdselect_def fd_orig_index_def CFF2FDArray_dictsSize_def
  CFF2FDArray_calculate_serialized_size_def CFF2FDArray_serialize_def
  cff2_static_size_def Null_PrivateDictValues_def CFF2SubTableOffsets_init_def
  cff2_subset_plan_init_def is_fds_subsetted_def create_top_def create_varStore_def
  create_FDSelect_def create_FDArray_def create_CharStrings_def create_def get_final_size_def
  write_header_def write_topDict_def write_globalSubrs_def write_varStore_def
  write_FDSelect_def write_FDArray_def write_CharStrings_def write_privateDicts_def
  write_sections_def run_sections_def write_cff2_def hb_subset_cff2_impl_def
  Let_def upt_conv_Cons calcOffSize_small


lemma example_create: "create example_acc [2, 3] = Some example_plan"
  by (simp add: eval_defs example_plan_def example_acc_def HB_SET_VALUE_INVALID_def)

lemma example_create_no_selector:
  "create example_acc_no_selector [0, 2] \<noteq> None"
  by (simp add: eval_defs example_acc_no_selector_def example_acc_def)

lemma example_write: "write_cff2 example_plan example_acc [2, 3] 88
    = Written \<lparr>written = example_output, room = 88\<rparr>"
  by (simp add: eval_defs example_plan_def example_acc_def example_output_def)



text \<open>
  C4, as stated, fails: a source with two font dicts and no selector table gets
  \<open>subst_fdcount = 1\<close> although \<open>orig_fdcount = 2\<close> and no selector subsetting ran.
\<close>

theorem C4_counterexample:
  "fdSelect example_acc_no_selector = None
   \<and> map_option subst_fdcount (create example_acc_no_selector [0, 2]) = Some 1
   \<and> map_option orig_fdcount (create example_acc_no_selector [0, 2]) = Some 2"
  by (simp add: eval_defs example_acc_no_selector_def example_acc_def)

text \<open>
  C4, amended. After a successful \<open>create\<close>, \<open>orig_fdcount\<close> is the source's font
  dict count. On a source with no selector table \<open>subst_fdcount\<close> is 1, the value the
  constructor gave it, whatever \<open>orig_fdcount\<close> is. On a source with a selector table
  \<open>subst_fdcount\<close> is the number of distinct font dicts the retained glyphs reference,
  which is at most \<open>orig_fdcount\<close>.
\<close>

theorem C4_subst_fdcount:
  "create acc glyphs = Some plan \<Longrightarrow>
     orig_fdcount plan = fdArray_count acc
     \<and> (fdSelect acc = None \<longrightarrow> subst_fdcount plan = 1)
     \<and> (\<forall>sel. fdSelect acc = Some sel \<longrightarrow>
           subst_fdcount plan = card (get_fd sel ` set glyphs)
           \<and> subst_fdcount plan \<le> orig_fdcount plan)"
proof -
  assume c: "create acc glyphs = Some plan"
  have o: "orig_fdcount plan = fdArray_count acc" by (rule create_orig_fdcount [OF c])
  have n: "fdSelect acc = None \<longrightarrow> subst_fdcount plan = 1"
    by (auto dest: create_no_selector(1) [OF c])
  have s: "subst_fdcount plan = card (get_fd sel ` set glyphs)
           \<and> subst_fdcount plan \<le> orig_fdcount plan" if "fdSelect acc = Some sel" for sel
  proof -
    from c that obtain sz fmt where
      "hb_plan_subset_cff_fdselect glyphs (fdArray_count acc) sel
         = Some (subst_fdcount plan, sz, fmt, subst_fdselect_first_glyphs plan, fdmap plan)"
      by (rule create_with_selector)
    from hb_plan_subset_cff_fdselect_count [OF this] o show ?thesis by simp
  qed
  from o n s show ?thesis by blast
qed

theorem C4_subst_fdcount_witness:
  "create example_acc [2, 3] = Some example_plan
   \<and> fdSelect example_acc
        = Some \<lparr>fds_data = [0, 0, 0, 1, 1], fds_fd = [0, 0, 1, 1]\<rparr>
   \<and> subst_fdcount example_plan = 1 \<and> orig_fdcount example_plan = 2
   \<and> fdSelect example_acc_no_selector = None
   \<and> map_option subst_fdcount (create example_acc_no_selector [0, 2]) = Some 1"
proof -
  have sel: "fdSelect example_acc = Some \<lparr>fds_data = [0, 0, 0, 1, 1], fds_fd = [0, 0, 1, 1]\<rparr>"
    by (simp add: example_acc_def)
  have nosel: "fdSelect example_acc_no_selector = None"
    by (simp add: example_acc_no_selector_def)
  have card: "card (get_fd \<lparr>fds_data = [0, 0, 0, 1, 1], fds_fd = [0, 0, 1, 1]\<rparr> ` set [2, 3]) = 1"
    by (simp add: get_fd_def vec_at_def)
  have o: "fdArray_count example_acc = 2" by (simp add: example_acc_def)
  from C4_subst_fdcount [OF example_create] sel card o
  have 1: "subst_fdcount example_plan = 1 \<and> orig_fdcount example_plan = 2" by simp
  from example_create_no_selector obtain p where
    p: "create example_acc_no_selector [0, 2] = Some p" by blast
  from C4_subst_fdcount [OF p] nosel have "subst_fdcount p = 1" by simp
  with p have 2: "map_option subst_fdcount (create example_acc_no_selector [0, 2]) = Some 1"
    by simp
  from example_create sel 1 nosel 2 show ?thesis by simp
qed

subsection \<open>Serializers as embeddings\<close>

lemma embed_head: "embed bs c = Some c1 \<Longrightarrow> head c1 \<le> room c1"
  by (auto simp: embed_def head_def split: if_splits)

lemma bind_embed:
  assumes "\<And>c1. head c1 \<le> room c1 \<Longrightarrow> g c1 = embed b c1"
  shows "Option.bind (embed a c) g = embed (a @ b) c"
proof (cases "embed a c")
  case None
  then show ?thesis by (simp add: embed_def split: if_splits)
next
  case (Some c1)
  then have "g c1 = embed b c1" by (intro assms embed_head)
  with Some show ?thesis by (auto simp: embed_def head_def split: if_splits)
qed

lemma Dict_serialize_embed:
  assumes "\<And>x c. opszr x p c = embed (f x p) c" and "head c \<le> room c"
  shows "Dict_serialize opszr xs p c = embed (Dict_bytes f xs p) c"
  using assms(2)
proof (induction xs arbitrary: c)
  case Nil
  then show ?case by (simp add: Dict_bytes_def embed_def)
next
  case (Cons x xs)
  have "Option.bind (embed (f x p) c) (Dict_serialize opszr xs p)
          = embed (f x p @ Dict_bytes f xs p) c"
    by (rule bind_embed) (rule Cons.IH)
  then show ?case by (simp add: assms(1) Dict_bytes_def)
qed

lemma Dict_bytes_length:
  assumes "\<And>x. length (f x p) = sz x"
  shows "length (Dict_bytes f xs p) = Dict_calculate_serialized_size sz xs"
  by (induction xs) (simp_all add: Dict_bytes_def Dict_calculate_serialized_size_def assms)

lemma embed_all_embed:
  "head c \<le> room c \<Longrightarrow> embed_all bss c = embed (concat bss) c"
proof (induction bss arbitrary: c)
  case Nil
  then show ?case by (simp add: embed_def)
next
  case (Cons bs bss)
  have "Option.bind (embed bs c) (embed_all bss) = embed (bs @ concat bss) c"
    by (rule bind_embed) (rule Cons.IH)
  then show ?case by simp
qed

lemma Index_serialize_embed:
  "Index_serialize offSize strs c = embed (Index_bytes offSize strs) c"
proof -
  have 2: "Option.bind (embed (Index_offsets offSize 1 (map length strs)) c1) (embed_all strs)
        = embed (Index_offsets offSize 1 (map length strs) @ concat strs) c1" for c1
    by (rule bind_embed) (rule embed_all_embed)
  have "Option.bind (embed (be_bytes 4 (length strs) @ be_bytes 1 offSize) c)
          (\<lambda>c1. Option.bind (embed (Index_offsets offSize 1 (map length strs)) c1) (embed_all strs))
        = embed ((be_bytes 4 (length strs) @ be_bytes 1 offSize)
                 @ (Index_offsets offSize 1 (map length strs) @ concat strs)) c"
    by (rule bind_embed) (rule 2)
  then show ?thesis by (simp add: Index_serialize_def Index_bytes_def)
qed

lemma length_Index_offsets [simp]:
  "length (Index_offsets offSize off ls) = offSize * (length ls + 1)"
  by (induction ls arbitrary: off) simp_all

lemma length_concat_sum: "length (concat xss) = sum_list (map length xss)"
  by (induction xss) simp_all

lemma length_Index_bytes:
  "length (Index_bytes offSize strs)
     = Index_calculate_serialized_size offSize (length strs) (sum_list (map length strs))"
  by (simp add: Index_bytes_def Index_calculate_serialized_size_def Index_min_size_def
      Index_calculate_offset_array_size_def length_concat_sum)

lemma FontDicts_serialize_embed:
  "head c \<le> room c \<Longrightarrow>
   FontDicts_serialize CFF2FontDict_OpSerializer_serialize ds c
     = embed (concat (map (\<lambda>d. Dict_bytes CFF2FontDict_op_bytes (fst d) (snd d)) ds)) c"
proof (induction ds arbitrary: c)
  case Nil
  then show ?case by (simp add: embed_def)
next
  case (Cons d ds)
  have d: "Dict_serialize CFF2FontDict_OpSerializer_serialize (fst d) (snd d) c
             = embed (Dict_bytes CFF2FontDict_op_bytes (fst d) (snd d)) c"
    by (rule Dict_serialize_embed) (simp_all add: FontDict_op_embed Cons.prems)
  have "Option.bind (embed (Dict_bytes CFF2FontDict_op_bytes (fst d) (snd d)) c)
          (FontDicts_serialize CFF2FontDict_OpSerializer_serialize ds)
        = embed (Dict_bytes CFF2FontDict_op_bytes (fst d) (snd d)
                 @ concat (map (\<lambda>d. Dict_bytes CFF2FontDict_op_bytes (fst d) (snd d)) ds)) c"
    by (rule bind_embed) (rule Cons.IH)
  then show ?case by (simp add: d)
qed

lemma FontDict_bytes_length:
  "length (Dict_bytes CFF2FontDict_op_bytes xs info)
     = Dict_calculate_serialized_size CFF2FontDict_OpSerializer_calculate_serialized_size xs"
  by (rule Dict_bytes_length) (rule FontDict_op_length)

lemma TopDict_bytes_length:
  "length (Dict_bytes CFF2TopDict_op_bytes xs offs)
     = Dict_calculate_serialized_size CFF2TopDict_OpSerializer_calculate_serialized_size xs"
  by (rule Dict_bytes_length) (rule TopDict_op_length)


lemma CFF2FDArray_serialize_embed:
  "CFF2FDArray_serialize offSize fds fdCount fd_map
       CFF2FontDict_OpSerializer_calculate_serialized_size CFF2FontDict_OpSerializer_serialize
       infos c
     = embed (Index_bytes offSize
               (map (\<lambda>k. Dict_bytes CFF2FontDict_op_bytes
                           (vec_at [] fds (fd_orig_index fd_map k))
                           (vec_at \<lparr>offset = 0, size' = 0\<rparr> infos (fd_orig_index fd_map k)))
                    [0..<fdCount])) c"
proof -
  let ?ds = "map (\<lambda>k. (vec_at [] fds (fd_orig_index fd_map k),
                        vec_at \<lparr>offset = 0, size' = 0\<rparr> infos (fd_orig_index fd_map k)))
                 [0..<fdCount]"
  let ?strs = "map (\<lambda>k. Dict_bytes CFF2FontDict_op_bytes
                           (vec_at [] fds (fd_orig_index fd_map k))
                           (vec_at \<lparr>offset = 0, size' = 0\<rparr> infos (fd_orig_index fd_map k)))
                    [0..<fdCount]"
  let ?offs = "Index_offsets offSize 1
                 (map (\<lambda>k. Dict_calculate_serialized_size
                             CFF2FontDict_OpSerializer_calculate_serialized_size
                             (vec_at [] fds (fd_orig_index fd_map k))) [0..<fdCount])"
  have offs: "?offs = Index_offsets offSize 1 (map length ?strs)"
    by (simp add: comp_def FontDict_bytes_length)
  have strs: "concat (map (\<lambda>d. Dict_bytes CFF2FontDict_op_bytes (fst d) (snd d)) ?ds)
                = concat ?strs"
    by (simp add: comp_def)
  have 2: "Option.bind (embed ?offs c1) (FontDicts_serialize CFF2FontDict_OpSerializer_serialize ?ds)
        = embed (?offs @ concat ?strs) c1" for c1
    unfolding strs [symmetric] by (rule bind_embed) (rule FontDicts_serialize_embed)
  have "Option.bind (embed (be_bytes 4 fdCount @ be_bytes 1 offSize) c)
          (\<lambda>c1. Option.bind (embed ?offs c1)
                   (FontDicts_serialize CFF2FontDict_OpSerializer_serialize ?ds))
        = embed ((be_bytes 4 fdCount @ be_bytes 1 offSize) @ (?offs @ concat ?strs)) c"
    by (rule bind_embed) (rule 2)
  then show ?thesis
    unfolding CFF2FDArray_serialize_def Index_bytes_def offs [symmetric] by simp
qed

lemma hb_serialize_cff_fdselect_embed:
  "hb_serialize_cff_fdselect glyphs src fdCount fmt sz fg fm c
     = embed (FDSelect_subset_bytes glyphs src fmt fg fm) c"
  by (simp add: hb_serialize_cff_fdselect_def FDSelect_subset_bytes_def)

lemma length_concat_const:
  "(\<And>x. length (f x) = k) \<Longrightarrow> length (concat (map f xs)) = k * length xs"
  by (induction xs) simp_all

lemma hb_plan_subset_cff_fdselect_size:
  assumes "hb_plan_subset_cff_fdselect glyphs fdCount sel = Some (k, sz, fmt, fg, fm)"
  shows "length (FDSelect_subset_bytes glyphs sel fmt fg fm) = sz"
proof -
  have "length (concat (map (\<lambda>i. be_bytes 2 i
                           @ [of_nat (remapped_fd fm sel (vec_at 0 glyphs i))]) fg))
          = 3 * length fg"
    by (rule length_concat_const) simp
  with assms show ?thesis
    by (auto simp: hb_plan_subset_cff_fdselect_def FDSelect_subset_bytes_def Let_def
        fdselect_dense_size_def fdselect_ranged_size_def split: if_splits)
qed

subsection \<open>The private-dict loop\<close>

lemma write_privateDict_loop_None:
  "\<not> list_all (\<lambda>pd. subrsOffset pd = 0 \<or> localSubrs pd \<noteq> None) (map fst xs) \<Longrightarrow>
   write_privateDict_loop xs c = None"
proof (induction xs arbitrary: c)
  case Nil
  then show ?case by simp
next
  case (Cons x xs)
  show ?case
  proof (cases "subrsOffset (fst x) = 0 \<or> localSubrs (fst x) \<noteq> None")
    case True
    with Cons.prems have "\<not> list_all (\<lambda>pd. subrsOffset pd = 0 \<or> localSubrs pd \<noteq> None) (map fst xs)"
      by auto
    then have "write_privateDict_loop xs c2 = None" for c2 by (rule Cons.IH)
    then show ?thesis by (simp split: Option.bind_split)
  next
    case False
    then show ?thesis by (simp split: Option.bind_split)
  qed
qed

lemma write_privateDict_loop_embed:
  "list_all (\<lambda>pd. subrsOffset pd = 0 \<or> localSubrs pd \<noteq> None) (map fst xs) \<Longrightarrow>
   head c \<le> room c \<Longrightarrow>
   write_privateDict_loop xs c
     = embed (concat (map (\<lambda>x. privateDict_pair_bytes (fst x) (size' (snd x))) xs)) c"
proof (induction xs arbitrary: c)
  case Nil
  then show ?case by (simp add: embed_def)
next
  case (Cons x xs)
  let ?d = "Dict_bytes CFF2PrivateDict_op_bytes (pd_opstrs (fst x)) (size' (snd x))"
  let ?s = "if subrsOffset (fst x) \<noteq> 0 then section_bytes (localSubrs (fst x)) else []"
  let ?r = "concat (map (\<lambda>x. privateDict_pair_bytes (fst x) (size' (snd x))) xs)"
  let ?sub = "\<lambda>c1. if subrsOffset (fst x) \<noteq> 0 then
                     (case localSubrs (fst x) of None \<Rightarrow> None
                      | Some subrs \<Rightarrow> copy_section (Some subrs) c1)
                   else Some c1"
  from Cons.prems have ok: "subrsOffset (fst x) = 0 \<or> localSubrs (fst x) \<noteq> None"
    and rest: "list_all (\<lambda>pd. subrsOffset pd = 0 \<or> localSubrs pd \<noteq> None) (map fst xs)"
    by simp_all
  have d: "Dict_serialize CFF2PrivateDict_OpSerializer_serialize (pd_opstrs (fst x))
             (size' (snd x)) c = embed ?d c"
    by (rule Dict_serialize_embed) (simp_all add: PrivateDict_op_embed Cons.prems)
  have sub: "?sub c1 = embed ?s c1" if "head c1 \<le> room c1" for c1
    using ok that by (auto simp: copy_section_def section_bytes_def embed_def)
  have tail: "Option.bind (?sub c1) (write_privateDict_loop xs) = embed (?s @ ?r) c1"
    if h: "head c1 \<le> room c1" for c1
  proof -
    have "Option.bind (embed ?s c1) (write_privateDict_loop xs) = embed (?s @ ?r) c1"
      by (rule bind_embed) (rule Cons.IH [OF rest])
    with sub [OF h] show ?thesis by simp
  qed
  have "Option.bind (embed ?d c) (\<lambda>c1. Option.bind (?sub c1) (write_privateDict_loop xs))
          = embed (?d @ (?s @ ?r)) c"
    by (rule bind_embed) (rule tail)
  then show ?case by (simp add: d privateDict_pair_bytes_def)
qed

subsection \<open>Sections of the writer\<close>

lemma emit_Written_iff:
  "emit bs c = Written c1 \<longleftrightarrow> head c + length bs \<le> room c \<and> c1 = c\<lparr>written := written c @ bs\<rparr>"
  by (auto simp: emit_def or_fail_def embed_def split: option.splits)

lemma emit_not_AssertionFailed [simp]: "emit bs c \<noteq> AssertionFailed"
  by (simp add: emit_def or_fail_def split: option.splits)

lemma and_then_emit:
  assumes "\<And>c. written c = written c0 @ a \<Longrightarrow> room c = room c0 \<Longrightarrow> head c \<le> room c \<Longrightarrow>
             step c = emit b c"
  shows "and_then (emit a c0) step = emit (a @ b) c0"
proof (cases "embed a c0")
  case None
  then show ?thesis by (simp add: emit_def or_fail_def and_then_def embed_def split: if_splits)
next
  case (Some c1)
  then have c1: "c1 = c0\<lparr>written := written c0 @ a\<rparr>" and r: "head c0 + length a \<le> room c0"
    by (simp_all add: embed_Some_iff)
  have "step c1 = emit b c1"
    by (rule assms) (use c1 r in \<open>simp_all add: head_def\<close>)
  with Some c1 show ?thesis
    by (auto simp: emit_def or_fail_def and_then_def embed_def head_def split: if_splits)
qed

lemma and_then_emit_failed:
  assumes "\<And>c. written c = written c0 @ a \<Longrightarrow> room c = room c0 \<Longrightarrow> head c \<le> room c \<Longrightarrow>
             step c = WriteFailed"
  shows "and_then (emit a c0) step = WriteFailed"
proof (cases "embed a c0")
  case None
  then show ?thesis by (simp add: emit_def or_fail_def and_then_def)
next
  case (Some c1)
  then have c1: "c1 = c0\<lparr>written := written c0 @ a\<rparr>" and r: "head c0 + length a \<le> room c0"
    by (simp_all add: embed_Some_iff)
  have "step c1 = WriteFailed"
    by (rule assms) (use c1 r in \<open>simp_all add: head_def\<close>)
  with Some show ?thesis by (simp add: emit_def or_fail_def and_then_def)
qed

lemma run_sections_snoc:
  "run_sections (steps @ [s]) dest_sz = and_then (run_sections steps dest_sz) s"
  by (simp add: run_sections_def)

lemma write_header_emit: "write_header plan c = emit (header_bytes plan) c"
  by (simp add: write_header_def emit_def header_bytes_def)

lemma length_header_bytes [simp]: "length (header_bytes plan) = cff2_static_size"
  by (simp add: header_bytes_def cff2_static_size_def)

lemma write_topDict_emit:
  "head c = cff2_static_size \<Longrightarrow> head c \<le> room c \<Longrightarrow>
   write_topDict plan acc c = emit (topDict_bytes plan acc) c"
  by (simp add: write_topDict_def assert_head_def and_then_def emit_def topDict_bytes_def
      Dict_serialize_embed [where f = CFF2TopDict_op_bytes] TopDict_op_embed)

lemma length_topDict_bytes [simp]: "length (topDict_bytes plan acc) = TopDict_size acc"
  by (simp add: topDict_bytes_def TopDict_size_def TopDict_bytes_length)

lemma write_globalSubrs_emit:
  "head c = cff2_static_size + topDictSize (offsets plan) \<Longrightarrow>
   write_globalSubrs plan acc c = emit (section_bytes (globalSubrs acc)) c"
  by (simp add: write_globalSubrs_def assert_head_def and_then_def emit_def copy_section_def
      section_bytes_def)

lemma length_section_bytes [simp]: "length (section_bytes s) = get_size s"
  by (simp add: section_bytes_def get_size_def split: option.splits)

lemma write_varStore_emit:
  "(varStore acc \<noteq> None \<Longrightarrow> head c = varStoreOffset (offsets plan)) \<Longrightarrow>
   head c \<le> room c \<Longrightarrow>
   write_varStore plan acc c = emit (section_bytes (varStore acc)) c"
  by (auto simp: write_varStore_def assert_head_def and_then_def emit_def copy_section_def
      section_bytes_def or_fail_def embed_def split: option.splits)

lemma write_FDSelect_emit:
  "(fdSelect acc \<noteq> None \<Longrightarrow> head c = offset (FDSelectInfo (offsets plan))) \<Longrightarrow>
   head c \<le> room c \<Longrightarrow>
   write_FDSelect plan acc glyphs c = emit (FDSelect_bytes plan acc glyphs) c"
  by (auto simp: write_FDSelect_def assert_head_def and_then_def emit_def FDSelect_bytes_def
      hb_serialize_cff_fdselect_embed FDSelect_serialize_def or_fail_def embed_def
      split: option.splits)

lemma write_FDArray_emit:
  "head c = FDArrayOffset (offsets plan) \<Longrightarrow>
   write_FDArray plan acc c = emit (FDArray_bytes plan acc) c"
  by (simp add: write_FDArray_def assert_head_def and_then_def emit_def FDArray_bytes_def
      CFF2FDArray_serialize_embed)

lemma write_CharStrings_emit:
  "head c = charStringsOffset (offsets plan) \<Longrightarrow>
   write_CharStrings plan c = emit (CharStrings_bytes plan) c"
  by (simp add: write_CharStrings_def assert_head_def and_then_def emit_def CharStrings_bytes_def
      Index_serialize_embed)

lemma write_privateDicts_emit:
  "head c = privateDictsOffset (offsets plan) \<Longrightarrow> head c \<le> room c \<Longrightarrow> subrs_present acc \<Longrightarrow>
   write_privateDicts plan acc c = emit (privateDicts_bytes plan acc) c"
  by (simp add: write_privateDicts_def assert_head_def and_then_def emit_def
      privateDicts_bytes_def subrs_present_def write_privateDict_loop_embed comp_def
      map_nth)

lemma write_privateDicts_failed:
  "head c = privateDictsOffset (offsets plan) \<Longrightarrow> \<not> subrs_present acc \<Longrightarrow>
   write_privateDicts plan acc c = WriteFailed"
  by (simp add: write_privateDicts_def assert_head_def and_then_def or_fail_def
      subrs_present_def write_privateDict_loop_None comp_def map_nth)

subsection \<open>Section sizes of a plan made by \<open>create\<close>\<close>

lemma length_FDSelect_bytes:
  assumes "create acc glyphs = Some plan"
  shows "length (FDSelect_bytes plan acc glyphs) = FDSelect_size plan acc"
proof (cases "fdSelect acc")
  case None
  then show ?thesis by (simp add: FDSelect_bytes_def FDSelect_size_def)
next
  case (Some sel)
  from assms Some obtain sz fmt where
    h: "hb_plan_subset_cff_fdselect glyphs (fdArray_count acc) sel
       = Some (subst_fdcount plan, sz, fmt, subst_fdselect_first_glyphs plan, fdmap plan)"
    and f: "subst_fdselect_format plan = fmt"
    and s: "size' (FDSelectInfo (offsets plan))
           = (if subst_fdcount plan < fdArray_count acc then sz
              else FDSelect_calculate_serialized_size sel (num_glyphs acc))"
    by (rule create_with_selector)
  note l = hb_plan_subset_cff_fdselect_size [OF h]
  show ?thesis
    using Some l s f
    by (simp add: FDSelect_bytes_def FDSelect_size_def is_fds_subsetted_def
        create_orig_fdcount [OF assms] FDSelect_calculate_serialized_size_def)
qed

lemma length_FDArray_bytes:
  assumes "create acc glyphs = Some plan"
  shows "length (FDArray_bytes plan acc) = FDArray_size plan acc"
  by (simp add: FDArray_bytes_def FDArray_size_def length_Index_bytes
      create_FDArrayOffSize [OF assms] CFF2FDArray_calculate_serialized_size_def Let_def
      CFF2FDArray_dictsSize_def comp_def FontDict_bytes_length)

lemma length_CharStrings_bytes:
  assumes "create acc glyphs = Some plan"
  shows "length (CharStrings_bytes plan) = CharStrings_size plan acc glyphs"
  by (simp add: CharStrings_bytes_def CharStrings_size_def length_Index_bytes
      create_subset_charstrings [OF assms] CharStrings_dataSize_def comp_def)

subsection \<open>The writer on a plan made by \<open>create\<close>\<close>

lemma run_sections_prefix:
  fixes dest_sz :: nat
  assumes c: "create acc glyphs = Some plan"
  defines "c0 \<equiv> \<lparr>written = [], room = dest_sz\<rparr>"
  shows run_1: "run_sections [write_header plan] dest_sz = emit (header_bytes plan) c0"
    and run_2: "run_sections [write_header plan, write_topDict plan acc] dest_sz
          = emit (header_bytes plan @ topDict_bytes plan acc) c0"
    and run_3: "run_sections [write_header plan, write_topDict plan acc,
            write_globalSubrs plan acc] dest_sz
          = emit (header_bytes plan @ topDict_bytes plan acc @ section_bytes (globalSubrs acc)) c0"
    and run_4: "run_sections [write_header plan, write_topDict plan acc,
            write_globalSubrs plan acc, write_varStore plan acc] dest_sz
          = emit (header_bytes plan @ topDict_bytes plan acc @ section_bytes (globalSubrs acc)
                  @ section_bytes (varStore acc)) c0"
    and run_5: "run_sections [write_header plan, write_topDict plan acc,
            write_globalSubrs plan acc, write_varStore plan acc,
            write_FDSelect plan acc glyphs] dest_sz
          = emit (header_bytes plan @ topDict_bytes plan acc @ section_bytes (globalSubrs acc)
                  @ section_bytes (varStore acc) @ FDSelect_bytes plan acc glyphs) c0"
    and run_6: "run_sections [write_header plan, write_topDict plan acc,
            write_globalSubrs plan acc, write_varStore plan acc,
            write_FDSelect plan acc glyphs, write_FDArray plan acc] dest_sz
          = emit (header_bytes plan @ topDict_bytes plan acc @ section_bytes (globalSubrs acc)
                  @ section_bytes (varStore acc) @ FDSelect_bytes plan acc glyphs
                  @ FDArray_bytes plan acc) c0"
    and run_7: "run_sections [write_header plan, write_topDict plan acc,
            write_globalSubrs plan acc, write_varStore plan acc,
            write_FDSelect plan acc glyphs, write_FDArray plan acc,
            write_CharStrings plan] dest_sz
          = emit (header_bytes plan @ topDict_bytes plan acc @ section_bytes (globalSubrs acc)
                  @ section_bytes (varStore acc) @ FDSelect_bytes plan acc glyphs
                  @ FDArray_bytes plan acc @ CharStrings_bytes plan) c0"
    and run_8: "run_sections (write_sections plan acc glyphs) dest_sz
          = (if subrs_present acc then emit (table_bytes plan acc glyphs) c0 else WriteFailed)"
proof -
  note f = create_fields [OF c]
  note ls = length_FDSelect_bytes [OF c] length_FDArray_bytes [OF c]
    length_CharStrings_bytes [OF c]
  let ?H = "header_bytes plan"
  let ?T = "topDict_bytes plan acc"
  let ?G = "section_bytes (globalSubrs acc)"
  let ?V = "section_bytes (varStore acc)"
  let ?S = "FDSelect_bytes plan acc glyphs"
  let ?A = "FDArray_bytes plan acc"
  let ?C = "CharStrings_bytes plan"
  let ?P = "privateDicts_bytes plan acc"
  have r0: "run_sections [] dest_sz = emit [] c0"
    by (simp add: run_sections_def c0_def emit_def or_fail_def embed_def head_def)
  have "run_sections ([] @ [write_header plan]) dest_sz = emit ([] @ ?H) c0"
    unfolding run_sections_snoc r0 by (rule and_then_emit) (rule write_header_emit)
  then show r1: "run_sections [write_header plan] dest_sz = emit ?H c0" by simp
  have "run_sections ([write_header plan] @ [write_topDict plan acc]) dest_sz = emit (?H @ ?T) c0"
    unfolding run_sections_snoc r1
    by (rule and_then_emit) (simp add: write_topDict_emit c0_def head_def)
  then show r2: "run_sections [write_header plan, write_topDict plan acc] dest_sz
      = emit (?H @ ?T) c0" by simp
  have "run_sections ([write_header plan, write_topDict plan acc]
          @ [write_globalSubrs plan acc]) dest_sz = emit ((?H @ ?T) @ ?G) c0"
    unfolding run_sections_snoc r2
    by (rule and_then_emit) (simp add: write_globalSubrs_emit c0_def head_def f(2))
  then show r3: "run_sections [write_header plan, write_topDict plan acc,
        write_globalSubrs plan acc] dest_sz = emit (?H @ ?T @ ?G) c0" by simp
  have "run_sections ([write_header plan, write_topDict plan acc, write_globalSubrs plan acc]
          @ [write_varStore plan acc]) dest_sz = emit ((?H @ ?T @ ?G) @ ?V) c0"
    unfolding run_sections_snoc r3
    by (rule and_then_emit) (simp add: write_varStore_emit c0_def head_def f(3))
  then show r4: "run_sections [write_header plan, write_topDict plan acc,
        write_globalSubrs plan acc, write_varStore plan acc] dest_sz
      = emit (?H @ ?T @ ?G @ ?V) c0" by simp
  have "run_sections ([write_header plan, write_topDict plan acc, write_globalSubrs plan acc,
          write_varStore plan acc] @ [write_FDSelect plan acc glyphs]) dest_sz
        = emit ((?H @ ?T @ ?G @ ?V) @ ?S) c0"
    unfolding run_sections_snoc r4
    by (rule and_then_emit) (simp add: write_FDSelect_emit c0_def head_def f(4))
  then show r5: "run_sections [write_header plan, write_topDict plan acc,
        write_globalSubrs plan acc, write_varStore plan acc,
        write_FDSelect plan acc glyphs] dest_sz = emit (?H @ ?T @ ?G @ ?V @ ?S) c0" by simp
  have "run_sections ([write_header plan, write_topDict plan acc, write_globalSubrs plan acc,
          write_varStore plan acc, write_FDSelect plan acc glyphs]
          @ [write_FDArray plan acc]) dest_sz = emit ((?H @ ?T @ ?G @ ?V @ ?S) @ ?A) c0"
    unfolding run_sections_snoc r5
    by (rule and_then_emit) (simp add: write_FDArray_emit c0_def head_def f(5) ls)
  then show r6: "run_sections [write_header plan, write_topDict plan acc,
        write_globalSubrs plan acc, write_varStore plan acc,
        write_FDSelect plan acc glyphs, write_FDArray plan acc] dest_sz
      = emit (?H @ ?T @ ?G @ ?V @ ?S @ ?A) c0" by simp
  have "run_sections ([write_header plan, write_topDict plan acc, write_globalSubrs plan acc,
          write_varStore plan acc, write_FDSelect plan acc glyphs, write_FDArray plan acc]
          @ [write_CharStrings plan]) dest_sz = emit ((?H @ ?T @ ?G @ ?V @ ?S @ ?A) @ ?C) c0"
    unfolding run_sections_snoc r6
    by (rule and_then_emit) (simp add: write_CharStrings_emit c0_def head_def f(5,7) ls)
  then show r7: "run_sections [write_header plan, write_topDict plan acc,
        write_globalSubrs plan acc, write_varStore plan acc,
        write_FDSelect plan acc glyphs, write_FDArray plan acc,
        write_CharStrings plan] dest_sz = emit (?H @ ?T @ ?G @ ?V @ ?S @ ?A @ ?C) c0" by simp
  have secs: "write_sections plan acc glyphs
      = [write_header plan, write_topDict plan acc, write_globalSubrs plan acc,
         write_varStore plan acc, write_FDSelect plan acc glyphs, write_FDArray plan acc,
         write_CharStrings plan] @ [write_privateDicts plan acc]"
    by (simp add: write_sections_def)
  show "run_sections (write_sections plan acc glyphs) dest_sz
      = (if subrs_present acc then emit (table_bytes plan acc glyphs) c0 else WriteFailed)"
  proof (cases "subrs_present acc")
    case True
    have "and_then (emit (?H @ ?T @ ?G @ ?V @ ?S @ ?A @ ?C) c0) (write_privateDicts plan acc)
        = emit ((?H @ ?T @ ?G @ ?V @ ?S @ ?A @ ?C) @ ?P) c0"
      by (rule and_then_emit)
         (simp add: write_privateDicts_emit True c0_def head_def f(5,7,10) ls)
    with True show ?thesis
      unfolding secs run_sections_snoc r7 by (simp add: table_bytes_def)
  next
    case False
    have "and_then (emit (?H @ ?T @ ?G @ ?V @ ?S @ ?A @ ?C) c0) (write_privateDicts plan acc)
        = WriteFailed"
      by (rule and_then_emit_failed)
         (simp add: write_privateDicts_failed False c0_def head_def f(5,7,10) ls)
    with False show ?thesis
      unfolding secs run_sections_snoc r7 by simp
  qed
qed

subsection \<open>Reading an index back\<close>

lemma be_val_snoc: "be_val (bs @ [b]) = be_val bs * 256 + unat b"
  by (simp add: be_val_def)

lemma be_val_be_bytes: "v < 256 ^ n \<Longrightarrow> be_val (be_bytes n v) = v"
proof (induction n arbitrary: v)
  case 0
  then show ?case by (simp add: be_val_def)
next
  case (Suc n)
  from Suc.prems have "v div 256 < 256 ^ n"
    by (simp add: less_mult_imp_div_less mult.commute div_less_iff_less_mult)
  then have "be_val (be_bytes n (v div 256)) = v div 256" by (rule Suc.IH)
  moreover have "unat (of_nat v :: byte) = v mod 256" by (simp add: unat_of_nat)
  ultimately show ?case by (simp add: be_val_snoc)
qed

lemma Index_offsets_at:
  "i \<le> length ls \<Longrightarrow>
   take w (drop (w * i) (Index_offsets w off ls @ rest))
     = be_bytes w (off + sum_list (take i ls))"
proof (induction ls arbitrary: i off)
  case Nil
  then show ?case by simp
next
  case (Cons l ls)
  show ?case
  proof (cases i)
    case 0
    then show ?thesis by simp
  next
    case (Suc j)
    with Cons.prems have "j \<le> length ls" by simp
    from Cons.IH [OF this, of "off + l"] Suc show ?thesis by (simp add: add.assoc)
  qed
qed

lemma concat_nth_slice:
  "i < length xss \<Longrightarrow>
   take (length (xss ! i)) (drop (sum_list (map length (take i xss))) (concat xss @ rest))
     = xss ! i"
proof (induction xss arbitrary: i)
  case Nil
  then show ?case by simp
next
  case (Cons xs xss)
  show ?case
  proof (cases i)
    case 0
    then show ?thesis by simp
  next
    case (Suc j)
    with Cons.prems have "j < length xss" by simp
    from Cons.IH [OF this] Suc show ?thesis by simp
  qed
qed

lemma sum_list_take_le: "sum_list (take i (ls :: nat list)) \<le> sum_list ls"
proof -
  have "sum_list ls = sum_list (take i ls) + sum_list (drop i ls)"
    by (metis append_take_drop_id sum_list_append)
  then show ?thesis by simp
qed

lemma sum_list_take_Suc:
  "i < length (ls :: nat list) \<Longrightarrow> sum_list (take (Suc i) ls) = sum_list (take i ls) + ls ! i"
  by (simp add: take_Suc_conv_app_nth)

lemma drop_prefix: "length xs = n \<Longrightarrow> drop (n + k) (xs @ ys) = drop k ys"
  by simp

lemma Index_bytes_read:
  assumes n: "length strs < 2 ^ 32" and w: "w < 256"
    and fits: "sum_list (map length strs) + 1 < 256 ^ w"
  shows Index_count_bytes: "Index_count (Index_bytes w strs @ rest) = length strs"
    and Index_offSize_bytes: "Index_offSize (Index_bytes w strs @ rest) = w"
    and Index_offset_at_bytes: "i \<le> length strs \<Longrightarrow>
          Index_offset_at (Index_bytes w strs @ rest) i
            = 1 + sum_list (take i (map length strs))"
    and Index_at_bytes: "i < length strs \<Longrightarrow> Index_at (Index_bytes w strs @ rest) i = strs ! i"
proof -
  let ?b = "Index_bytes w strs @ rest"
  let ?ls = "map length strs"
  have n': "length strs < 256 ^ 4" using n by simp
  show cnt: "Index_count ?b = length strs"
    by (simp add: Index_count_def Index_bytes_def be_val_be_bytes [OF n'])
  have w': "be_val [of_nat w :: byte] = w"
    using be_val_be_bytes [of w "Suc 0"] w by simp
  show osz: "Index_offSize ?b = w"
    by (simp add: Index_offSize_def Index_bytes_def w')
  have off: "Index_offset_at ?b i = 1 + sum_list (take i ?ls)" if i: "i \<le> length strs" for i
  proof -
    have e: "?b = (be_bytes 4 (length strs) @ be_bytes 1 w)
                   @ (Index_offsets w 1 ?ls @ (concat strs @ rest))"
      by (simp add: Index_bytes_def)
    have l: "length (be_bytes 4 (length strs) @ be_bytes 1 w) = Index_min_size"
      by (simp add: Index_min_size_def)
    have "drop (Index_min_size + w * i) ?b
            = drop (w * i) (Index_offsets w 1 ?ls @ (concat strs @ rest))"
      by (subst e) (rule drop_prefix [OF l])
    moreover have "i \<le> length ?ls" using i by simp
    ultimately have "take w (drop (Index_min_size + w * i) ?b)
        = be_bytes w (1 + sum_list (take i ?ls))"
      by (simp only: Index_offsets_at)
    moreover have "1 + sum_list (take i ?ls) < 256 ^ w"
      using sum_list_take_le [of i ?ls] fits by simp
    ultimately show ?thesis
      by (simp add: Index_offset_at_def osz be_val_be_bytes)
  qed
  then show "i \<le> length strs \<Longrightarrow> Index_offset_at ?b i = 1 + sum_list (take i ?ls)" .
  show "Index_at ?b i = strs ! i" if i: "i < length strs"
  proof -
    have o1: "Index_offset_at ?b i = 1 + sum_list (take i ?ls)" using i by (simp add: off)
    have o2: "Index_offset_at ?b (i + 1) = 1 + sum_list (take i ?ls) + length (strs ! i)"
      using i off [of "Suc i"] by (simp add: sum_list_take_Suc)
    have e: "?b = (be_bytes 4 (length strs) @ be_bytes 1 w @ Index_offsets w 1 ?ls)
                   @ (concat strs @ rest)"
      by (simp add: Index_bytes_def)
    have l: "length (be_bytes 4 (length strs) @ be_bytes 1 w @ Index_offsets w 1 ?ls)
               = Index_min_size + w * (length strs + 1)"
      by (simp add: Index_min_size_def)
    have d: "drop (Index_min_size + w * (length strs + 1) + sum_list (take i ?ls)) ?b
               = drop (sum_list (take i ?ls)) (concat strs @ rest)"
      by (subst e) (rule drop_prefix [OF l])
    have a: "Index_offset_at ?b (i + 1) - Index_offset_at ?b i = length (strs ! i)"
      using o1 o2 by simp
    have b: "Index_min_size + Index_offSize ?b * (length strs + 1) + (Index_offset_at ?b i - 1)
               = Index_min_size + w * (length strs + 1) + sum_list (take i ?ls)"
      using osz o1 by simp
    have "Index_at ?b i
            = take (length (strs ! i))
                (drop (Index_min_size + w * (length strs + 1) + sum_list (take i ?ls)) ?b)"
      using i by (simp only: Index_at_def cnt if_True a b)
    also have "\<dots> = take (length (strs ! i))
                (drop (sum_list (map length (take i strs))) (concat strs @ rest))"
      by (simp only: d) (simp only: take_map)
    also have "\<dots> = strs ! i"
      using i by (rule concat_nth_slice)
    finally show ?thesis .
  qed
qed

subsection \<open>The written table\<close>

lemma write_cff2_created:
  assumes "create acc glyphs = Some plan"
  shows "write_cff2 plan acc glyphs dest_sz
    = (if subrs_present acc
       then emit (table_bytes plan acc glyphs) \<lparr>written = [], room = dest_sz\<rparr>
       else WriteFailed)"
  unfolding write_cff2_def by (rule run_8 [OF assms])

lemma write_cff2_WrittenD:
  assumes "create acc glyphs = Some plan" and "write_cff2 plan acc glyphs dest_sz = Written c"
  shows "written c = table_bytes plan acc glyphs" and "subrs_present acc"
    and "length (table_bytes plan acc glyphs) \<le> dest_sz" and "room c = dest_sz"
  using assms(2) unfolding write_cff2_created [OF assms(1)]
  by (auto simp: emit_Written_iff head_def split: if_splits)

lemma emit_head:
  "emit bs \<lparr>written = [], room = dest_sz\<rparr> = Written c \<Longrightarrow> head c = length bs"
  by (auto simp: emit_Written_iff head_def)

lemma take_write_sections:
  "take 3 (write_sections plan acc glyphs)
     = [write_header plan, write_topDict plan acc, write_globalSubrs plan acc]"
  "take 4 (write_sections plan acc glyphs)
     = [write_header plan, write_topDict plan acc, write_globalSubrs plan acc,
        write_varStore plan acc]"
  "take 5 (write_sections plan acc glyphs)
     = [write_header plan, write_topDict plan acc, write_globalSubrs plan acc,
        write_varStore plan acc, write_FDSelect plan acc glyphs]"
  "take 6 (write_sections plan acc glyphs)
     = [write_header plan, write_topDict plan acc, write_globalSubrs plan acc,
        write_varStore plan acc, write_FDSelect plan acc glyphs, write_FDArray plan acc]"
  "take 7 (write_sections plan acc glyphs)
     = [write_header plan, write_topDict plan acc, write_globalSubrs plan acc,
        write_varStore plan acc, write_FDSelect plan acc glyphs, write_FDArray plan acc,
        write_CharStrings plan]"
  by (simp_all add: write_sections_def)

text \<open>
  C2. After a successful \<open>create\<close>, each recorded offset (variation store and selector
  when the source has them, font-dict array, charstrings, private-dict block) is the sum
  of the sizes of the sections before it, in the order header, top dict, global
  subroutines, variation store, selector, font-dict array, charstrings. Whenever the
  writer, run on that plan over a buffer of any size, gets to the start of one of these
  sections, its cursor is the recorded offset; so none of its assertions fails.
\<close>

theorem C2_offsets_cumulative_and_cursor_agrees:
  "create acc glyphs = Some plan \<Longrightarrow>
     (varStore acc \<noteq> None \<longrightarrow>
        varStoreOffset (offsets plan)
          = cff2_static_size + TopDict_size acc + get_size (globalSubrs acc))
     \<and> (fdSelect acc \<noteq> None \<longrightarrow>
        offset (FDSelectInfo (offsets plan))
          = cff2_static_size + TopDict_size acc + get_size (globalSubrs acc)
            + get_size (varStore acc))
     \<and> FDArrayOffset (offsets plan)
          = cff2_static_size + TopDict_size acc + get_size (globalSubrs acc)
            + get_size (varStore acc) + FDSelect_size plan acc
     \<and> charStringsOffset (offsets plan)
          = cff2_static_size + TopDict_size acc + get_size (globalSubrs acc)
            + get_size (varStore acc) + FDSelect_size plan acc + FDArray_size plan acc
     \<and> privateDictsOffset (offsets plan)
          = cff2_static_size + TopDict_size acc + get_size (globalSubrs acc)
            + get_size (varStore acc) + FDSelect_size plan acc + FDArray_size plan acc
            + CharStrings_size plan acc glyphs
     \<and> (\<forall>c. varStore acc \<noteq> None
              \<and> run_sections (take 3 (write_sections plan acc glyphs)) dest_sz = Written c
            \<longrightarrow> head c = varStoreOffset (offsets plan))
     \<and> (\<forall>c. fdSelect acc \<noteq> None
              \<and> run_sections (take 4 (write_sections plan acc glyphs)) dest_sz = Written c
            \<longrightarrow> head c = offset (FDSelectInfo (offsets plan)))
     \<and> (\<forall>c. run_sections (take 5 (write_sections plan acc glyphs)) dest_sz = Written c
            \<longrightarrow> head c = FDArrayOffset (offsets plan))
     \<and> (\<forall>c. run_sections (take 6 (write_sections plan acc glyphs)) dest_sz = Written c
            \<longrightarrow> head c = charStringsOffset (offsets plan))
     \<and> (\<forall>c. run_sections (take 7 (write_sections plan acc glyphs)) dest_sz = Written c
            \<longrightarrow> head c = privateDictsOffset (offsets plan))
     \<and> write_cff2 plan acc glyphs dest_sz \<noteq> AssertionFailed"
proof -
  assume c: "create acc glyphs = Some plan"
  note f = create_fields [OF c]
  note ls = length_FDSelect_bytes [OF c] length_FDArray_bytes [OF c]
    length_CharStrings_bytes [OF c]
  note r = run_sections_prefix [OF c, of dest_sz]
  have o1: "varStore acc \<noteq> None \<longrightarrow>
        varStoreOffset (offsets plan)
          = cff2_static_size + TopDict_size acc + get_size (globalSubrs acc)"
    by (simp add: f(3))
  have o2: "fdSelect acc \<noteq> None \<longrightarrow>
        offset (FDSelectInfo (offsets plan))
          = cff2_static_size + TopDict_size acc + get_size (globalSubrs acc)
            + get_size (varStore acc)"
    by (simp add: f(4))
  have o3: "FDArrayOffset (offsets plan)
          = cff2_static_size + TopDict_size acc + get_size (globalSubrs acc)
            + get_size (varStore acc) + FDSelect_size plan acc"
    by (rule f(5))
  have o4: "charStringsOffset (offsets plan)
          = cff2_static_size + TopDict_size acc + get_size (globalSubrs acc)
            + get_size (varStore acc) + FDSelect_size plan acc + FDArray_size plan acc"
    by (simp add: f(7) o3)
  have o5: "privateDictsOffset (offsets plan)
          = cff2_static_size + TopDict_size acc + get_size (globalSubrs acc)
            + get_size (varStore acc) + FDSelect_size plan acc + FDArray_size plan acc
            + CharStrings_size plan acc glyphs"
    by (simp add: f(10) o4)
  have w3: "head c1 = varStoreOffset (offsets plan)"
    if "varStore acc \<noteq> None"
      and "run_sections (take 3 (write_sections plan acc glyphs)) dest_sz = Written c1" for c1
    using that(2) unfolding take_write_sections r(3)
    by (auto dest!: emit_head simp: f(3) [OF that(1)])
  have w4: "head c1 = offset (FDSelectInfo (offsets plan))"
    if "fdSelect acc \<noteq> None"
      and "run_sections (take 4 (write_sections plan acc glyphs)) dest_sz = Written c1" for c1
    using that(2) unfolding take_write_sections r(4)
    by (auto dest!: emit_head simp: f(4) [OF that(1)])
  have w5: "head c1 = FDArrayOffset (offsets plan)"
    if "run_sections (take 5 (write_sections plan acc glyphs)) dest_sz = Written c1" for c1
    using that unfolding take_write_sections r(5)
    by (auto dest!: emit_head simp: o3 ls)
  have w6: "head c1 = charStringsOffset (offsets plan)"
    if "run_sections (take 6 (write_sections plan acc glyphs)) dest_sz = Written c1" for c1
    using that unfolding take_write_sections r(6)
    by (auto dest!: emit_head simp: o4 ls)
  have w7: "head c1 = privateDictsOffset (offsets plan)"
    if "run_sections (take 7 (write_sections plan acc glyphs)) dest_sz = Written c1" for c1
    using that unfolding take_write_sections r(7)
    by (auto dest!: emit_head simp: o5 ls)
  have na: "write_cff2 plan acc glyphs dest_sz \<noteq> AssertionFailed"
    by (simp add: write_cff2_created [OF c])
  from o1 o2 o3 o4 o5 w3 w4 w5 w6 w7 na show ?thesis by blast
qed

lemma example_prefix_runs:
  "run_sections (take 3 (write_sections example_plan example_acc [2, 3])) 88
     = Written \<lparr>written = take 38 example_output, room = 88\<rparr>"
  "run_sections (take 4 (write_sections example_plan example_acc [2, 3])) 88
     = Written \<lparr>written = take 42 example_output, room = 88\<rparr>"
  "run_sections (take 5 (write_sections example_plan example_acc [2, 3])) 88
     = Written \<lparr>written = take 45 example_output, room = 88\<rparr>"
  "run_sections (take 6 (write_sections example_plan example_acc [2, 3])) 88
     = Written \<lparr>written = take 61 example_output, room = 88\<rparr>"
  "run_sections (take 7 (write_sections example_plan example_acc [2, 3])) 88
     = Written \<lparr>written = take 76 example_output, room = 88\<rparr>"
  by (simp_all add: eval_defs example_plan_def example_acc_def example_output_def)

theorem C2_offsets_cumulative_and_cursor_agrees_witness:
  "create example_acc [2, 3] = Some example_plan
   \<and> varStore example_acc \<noteq> None \<and> fdSelect example_acc \<noteq> None
   \<and> run_sections (take 3 (write_sections example_plan example_acc [2, 3])) 88
       = Written \<lparr>written = take 38 example_output, room = 88\<rparr>
   \<and> head \<lparr>written = take 38 example_output, room = 88\<rparr>
       = varStoreOffset (offsets example_plan)
   \<and> run_sections (take 4 (write_sections example_plan example_acc [2, 3])) 88
       = Written \<lparr>written = take 42 example_output, room = 88\<rparr>
   \<and> head \<lparr>written = take 42 example_output, room = 88\<rparr>
       = offset (FDSelectInfo (offsets example_plan))
   \<and> run_sections (take 5 (write_sections example_plan example_acc [2, 3])) 88
       = Written \<lparr>written = take 45 example_output, room = 88\<rparr>
   \<and> head \<lparr>written = take 45 example_output, room = 88\<rparr>
       = FDArrayOffset (offsets example_plan)
   \<and> run_sections (take 6 (write_sections example_plan example_acc [2, 3])) 88
       = Written \<lparr>written = take 61 example_output, room = 88\<rparr>
   \<and> head \<lparr>written = take 61 example_output, room = 88\<rparr>
       = charStringsOffset (offsets example_plan)
   \<and> run_sections (take 7 (write_sections example_plan example_acc [2, 3])) 88
       = Written \<lparr>written = take 76 example_output, room = 88\<rparr>
   \<and> head \<lparr>written = take 76 example_output, room = 88\<rparr>
       = privateDictsOffset (offsets example_plan)
   \<and> varStoreOffset (offsets example_plan) = 5 + 29 + 4
   \<and> write_cff2 example_plan example_acc [2, 3] 88 \<noteq> AssertionFailed"
proof -
  have v: "varStore example_acc \<noteq> None" and s: "fdSelect example_acc \<noteq> None"
    by (simp_all add: example_acc_def)
  note t = C2_offsets_cumulative_and_cursor_agrees [OF example_create, of 88]
  note r = example_prefix_runs
  from t v r(1) have h3: "head \<lparr>written = take 38 example_output, room = 88\<rparr>
       = varStoreOffset (offsets example_plan)" by blast
  from t s r(2) have h4: "head \<lparr>written = take 42 example_output, room = 88\<rparr>
       = offset (FDSelectInfo (offsets example_plan))" by blast
  from t r(3) have h5: "head \<lparr>written = take 45 example_output, room = 88\<rparr>
       = FDArrayOffset (offsets example_plan)" by blast
  from t r(4) have h6: "head \<lparr>written = take 61 example_output, room = 88\<rparr>
       = charStringsOffset (offsets example_plan)" by blast
  from t r(5) have h7: "head \<lparr>written = take 76 example_output, room = 88\<rparr>
       = privateDictsOffset (offsets example_plan)" by blast
  from t v have o: "varStoreOffset (offsets example_plan)
      = cff2_static_size + TopDict_size example_acc + get_size (globalSubrs example_acc)"
    by blast
  have o': "cff2_static_size + TopDict_size example_acc + get_size (globalSubrs example_acc)
      = 5 + 29 + 4"
    by (simp add: eval_defs TopDict_size_def example_acc_def)
  from t have na: "write_cff2 example_plan example_acc [2, 3] 88 \<noteq> AssertionFailed" by blast
  from example_create v s r h3 h4 h5 h6 h7 o o' na show ?thesis by simp
qed

lemma table_bytes_from_charStrings:
  assumes c: "create acc glyphs = Some plan"
  shows "drop (charStringsOffset (offsets plan)) (table_bytes plan acc glyphs)
           = CharStrings_bytes plan @ privateDicts_bytes plan acc"
proof -
  note f = create_fields [OF c]
  note ls = length_FDSelect_bytes [OF c] length_FDArray_bytes [OF c]
  let ?pre = "header_bytes plan @ topDict_bytes plan acc @ section_bytes (globalSubrs acc)
     @ section_bytes (varStore acc) @ FDSelect_bytes plan acc glyphs @ FDArray_bytes plan acc"
  have e: "table_bytes plan acc glyphs
      = ?pre @ (CharStrings_bytes plan @ privateDicts_bytes plan acc)"
    by (simp add: table_bytes_def)
  have l: "length ?pre = charStringsOffset (offsets plan)"
    by (simp add: f(5,7) ls)
  from drop_prefix [OF l, of 0] show ?thesis by (simp only: e add_0_right drop_0)
qed

lemma table_bytes_from_privateDicts:
  assumes c: "create acc glyphs = Some plan"
  shows "drop (privateDictsOffset (offsets plan)) (table_bytes plan acc glyphs)
           = privateDicts_bytes plan acc"
proof -
  note f = create_fields [OF c]
  note ls = length_FDSelect_bytes [OF c] length_FDArray_bytes [OF c]
    length_CharStrings_bytes [OF c]
  let ?pre = "header_bytes plan @ topDict_bytes plan acc @ section_bytes (globalSubrs acc)
     @ section_bytes (varStore acc) @ FDSelect_bytes plan acc glyphs @ FDArray_bytes plan acc
     @ CharStrings_bytes plan"
  have e: "table_bytes plan acc glyphs = ?pre @ privateDicts_bytes plan acc"
    by (simp add: table_bytes_def)
  have l: "length ?pre = privateDictsOffset (offsets plan)"
    by (simp add: f(5,7,10) ls)
  from drop_prefix [OF l, of 0] show ?thesis by (simp only: e add_0_right drop_0)
qed

text \<open>
  C3. After a successful \<open>create\<close> and a successful write, for every position \<open>i\<close> of
  the glyph selection the plan's \<open>i\<close>-th retained charstring is the source charstring
  of glyph \<open>glyphs ! i\<close> (the empty string when that glyph is out of range, as
  \<open>Index::operator[]\<close> gives), the charstring index of the output has one entry per
  selected glyph, and its entry \<open>i\<close> reads back as that same byte string. The count
  and the data size are assumed to fit \<open>unsigned int\<close>, as they do in the source.
\<close>

theorem C3_charstrings_copied_in_selection_order:
  "create acc glyphs = Some plan \<Longrightarrow>
   write_cff2 plan acc glyphs dest_sz = Written c \<Longrightarrow>
   length glyphs < 2 ^ 32 \<Longrightarrow>
   sum_list (map (\<lambda>g. length (vec_at [] (charStrings acc) g)) glyphs) + 1 < 2 ^ 32 \<Longrightarrow>
   i < length glyphs \<Longrightarrow>
     subset_charstrings plan ! i = vec_at [] (charStrings acc) (glyphs ! i)
     \<and> Index_count (drop (charStringsOffset (offsets plan)) (written c)) = length glyphs
     \<and> Index_at (drop (charStringsOffset (offsets plan)) (written c)) i
         = vec_at [] (charStrings acc) (glyphs ! i)"
proof -
  assume cr: "create acc glyphs = Some plan"
    and wr: "write_cff2 plan acc glyphs dest_sz = Written c"
    and n: "length glyphs < 2 ^ 32"
    and d: "sum_list (map (\<lambda>g. length (vec_at [] (charStrings acc) g)) glyphs) + 1 < 2 ^ 32"
    and i: "i < length glyphs"
  note f = create_fields [OF cr]
  let ?strs = "subset_charstrings plan"
  let ?w = "charStringsOffSize (offsets plan)"
  have strs: "?strs = map (vec_at [] (charStrings acc)) glyphs" by (rule f(9))
  have len: "length ?strs = length glyphs" by (simp add: strs)
  have data: "sum_list (map length ?strs) = CharStrings_dataSize acc glyphs"
    by (simp add: strs CharStrings_dataSize_def comp_def)
  have w: "?w = calcOffSize (CharStrings_dataSize acc glyphs + 1)" by (rule f(8))
  have "CharStrings_dataSize acc glyphs + 1 < 256 ^ 4"
    using d by (simp add: CharStrings_dataSize_def)
  then have "?w \<le> 4" unfolding w by (intro calcOffSize_least) simp_all
  then have w256: "?w < 256" by simp
  have fits: "sum_list (map length ?strs) + 1 < 256 ^ ?w"
    unfolding data w by (rule calcOffSize_holds)
  have out: "drop (charStringsOffset (offsets plan)) (written c)
      = Index_bytes ?w ?strs @ privateDicts_bytes plan acc"
    using write_cff2_WrittenD(1) [OF cr wr] table_bytes_from_charStrings [OF cr]
    by (simp add: CharStrings_bytes_def)
  have n': "length ?strs < 2 ^ 32" using n len by simp
  have i': "i < length ?strs" using i len by simp
  have 1: "subset_charstrings plan ! i = vec_at [] (charStrings acc) (glyphs ! i)"
    using i by (simp add: strs)
  have 2: "Index_count (drop (charStringsOffset (offsets plan)) (written c)) = length glyphs"
    unfolding out using Index_count_bytes [OF n' w256 fits] len by simp
  have 3: "Index_at (drop (charStringsOffset (offsets plan)) (written c)) i
         = vec_at [] (charStrings acc) (glyphs ! i)"
    unfolding out using Index_at_bytes [OF n' w256 fits i'] 1 by simp
  from 1 2 3 show ?thesis by blast
qed

theorem C3_charstrings_copied_in_selection_order_witness:
  "create example_acc [2, 3] = Some example_plan
   \<and> write_cff2 example_plan example_acc [2, 3] 88
       = Written \<lparr>written = example_output, room = 88\<rparr>
   \<and> length [2 :: nat, 3] < 2 ^ 32
   \<and> sum_list (map (\<lambda>g. length (vec_at [] (charStrings example_acc) g)) [2, 3]) + 1 < 2 ^ 32
   \<and> (1 :: nat) < length [2 :: nat, 3]
   \<and> subset_charstrings example_plan ! 1 = [4, 4, 4, 4]
   \<and> Index_count (drop (charStringsOffset (offsets example_plan)) example_output) = 2
   \<and> Index_at (drop (charStringsOffset (offsets example_plan)) example_output) 1
       = [4, 4, 4, 4]"
proof -
  have n: "length [2 :: nat, 3] < 2 ^ 32" by simp
  have d: "sum_list (map (\<lambda>g. length (vec_at [] (charStrings example_acc) g)) [2, 3]) + 1
      < 2 ^ 32"
    by (simp add: vec_at_def example_acc_def)
  have i: "(1 :: nat) < length [2 :: nat, 3]" by simp
  have g: "vec_at [] (charStrings example_acc) ([2, 3] ! 1) = [4, 4, 4, 4]"
    by (simp add: vec_at_def example_acc_def)
  note t = C3_charstrings_copied_in_selection_order [OF example_create example_write n d i]
  from t g have "subset_charstrings example_plan ! 1 = [4, 4, 4, 4]
   \<and> Index_count (drop (charStringsOffset (offsets example_plan)) example_output) = 2
   \<and> Index_at (drop (charStringsOffset (offsets example_plan)) example_output) 1
       = [4, 4, 4, 4]"
    by simp
  with example_create example_write n d i show ?thesis by blast
qed

subsection \<open>The charstring index of the output\<close>

text \<open>
  C9. After a successful \<open>create\<close>, the glyph count and the data size fitting
  \<open>unsigned int\<close> as they do in the source: the retained charstrings are the source
  charstrings of the selected glyphs; the offset size recorded for the charstring index
  is the smallest width, at least one byte and at most four, that holds the sum of their
  lengths plus one; and the charstrings section spans the index header, the offset array
  and that sum. After a successful write, the offset-size byte of the charstring index
  in the output is that width, each of its \<open>count + 1\<close> offset entries, read at that
  width, is one plus the lengths of the strings before it, and the charstrings section
  of the output, which ends where the private dicts start, is the index header, the
  offset array and the strings: header size plus offset-array size plus data size bytes.
\<close>

theorem C9_charstrings_offsize_and_size:
  "create acc glyphs = Some plan \<Longrightarrow>
   length glyphs < 2 ^ 32 \<Longrightarrow>
   sum_list (map (\<lambda>g. length (vec_at [] (charStrings acc) g)) glyphs) + 1 < 2 ^ 32 \<Longrightarrow>
     subset_charstrings plan = map (vec_at [] (charStrings acc)) glyphs
     \<and> 1 \<le> charStringsOffSize (offsets plan)
     \<and> charStringsOffSize (offsets plan) \<le> 4
     \<and> sum_list (map length (subset_charstrings plan)) + 1
          < 256 ^ charStringsOffSize (offsets plan)
     \<and> (\<forall>w. 1 \<le> w \<and> sum_list (map length (subset_charstrings plan)) + 1 < 256 ^ w
            \<longrightarrow> charStringsOffSize (offsets plan) \<le> w)
     \<and> privateDictsOffset (offsets plan)
          = charStringsOffset (offsets plan)
            + (Index_min_size
               + Index_calculate_offset_array_size (charStringsOffSize (offsets plan))
                   (length glyphs)
               + sum_list (map length (subset_charstrings plan)))
     \<and> (\<forall>dest_sz c. write_cff2 plan acc glyphs dest_sz = Written c \<longrightarrow>
          Index_offSize (drop (charStringsOffset (offsets plan)) (written c))
            = charStringsOffSize (offsets plan)
          \<and> (\<forall>i\<le>length glyphs.
               be_val (take (charStringsOffSize (offsets plan))
                         (drop (charStringsOffset (offsets plan) + Index_min_size
                                + charStringsOffSize (offsets plan) * i) (written c)))
                 = 1 + sum_list (map length (take i (subset_charstrings plan))))
          \<and> privateDictsOffset (offsets plan) \<le> length (written c)
          \<and> take (Index_min_size
                    + Index_calculate_offset_array_size (charStringsOffSize (offsets plan))
                        (length glyphs)
                    + sum_list (map length (subset_charstrings plan)))
                  (drop (charStringsOffset (offsets plan)) (written c))
              = be_bytes 4 (length glyphs) @ be_bytes 1 (charStringsOffSize (offsets plan))
                @ Index_offsets (charStringsOffSize (offsets plan)) 1
                    (map length (subset_charstrings plan))
                @ concat (subset_charstrings plan))"
proof -
  assume cr: "create acc glyphs = Some plan"
    and n: "length glyphs < 2 ^ 32"
    and b: "sum_list (map (\<lambda>g. length (vec_at [] (charStrings acc) g)) glyphs) + 1 < 2 ^ 32"
  note f = create_fields [OF cr]
  let ?strs = "subset_charstrings plan"
  let ?w = "charStringsOffSize (offsets plan)"
  let ?cso = "charStringsOffset (offsets plan)"
  let ?sz = "Index_min_size + Index_calculate_offset_array_size ?w (length glyphs)
               + sum_list (map length ?strs)"
  have strs: "?strs = map (vec_at [] (charStrings acc)) glyphs" by (rule f(9))
  have len: "length ?strs = length glyphs" by (simp add: strs)
  have d: "sum_list (map length ?strs) = CharStrings_dataSize acc glyphs"
    by (simp add: strs CharStrings_dataSize_def comp_def)
  have w: "?w = calcOffSize (CharStrings_dataSize acc glyphs + 1)" by (rule f(8))
  have "CharStrings_dataSize acc glyphs + 1 < 256 ^ 4"
    using b by (simp add: CharStrings_dataSize_def)
  then have w4: "?w \<le> 4" unfolding w by (intro calcOffSize_least) simp_all
  then have w256: "?w < 256" by simp
  have w1: "1 \<le> ?w" by (simp only: w calcOffSize_pos)
  have fits: "sum_list (map length ?strs) + 1 < 256 ^ ?w"
    by (simp only: w d calcOffSize_holds)
  have least: "\<forall>w. 1 \<le> w \<and> sum_list (map length ?strs) + 1 < 256 ^ w \<longrightarrow> ?w \<le> w"
    by (auto simp only: w d intro: calcOffSize_least)
  have pdo: "privateDictsOffset (offsets plan) = ?cso + ?sz"
    by (simp add: f(10) CharStrings_size_def Index_calculate_serialized_size_def d len)
  have n': "length ?strs < 2 ^ 32" using n len by simp
  have lb: "length (Index_bytes ?w ?strs) = ?sz"
    by (simp add: length_Index_bytes Index_calculate_serialized_size_def len)
  have wrote: "Index_offSize (drop ?cso (written c)) = ?w
      \<and> (\<forall>i\<le>length glyphs.
            be_val (take ?w (drop (?cso + Index_min_size + ?w * i) (written c)))
              = 1 + sum_list (map length (take i ?strs)))
      \<and> privateDictsOffset (offsets plan) \<le> length (written c)
      \<and> take ?sz (drop ?cso (written c))
           = be_bytes 4 (length glyphs) @ be_bytes 1 ?w
             @ Index_offsets ?w 1 (map length ?strs) @ concat ?strs"
    if wr: "write_cff2 plan acc glyphs dest_sz = Written c" for dest_sz c
  proof -
    have out: "drop ?cso (written c) = Index_bytes ?w ?strs @ privateDicts_bytes plan acc"
      using write_cff2_WrittenD(1) [OF cr wr] table_bytes_from_charStrings [OF cr]
      by (simp add: CharStrings_bytes_def)
    have osz: "Index_offSize (drop ?cso (written c)) = ?w"
      unfolding out by (rule Index_offSize_bytes [OF n' w256 fits])
    have offs: "be_val (take ?w (drop (?cso + Index_min_size + ?w * i) (written c)))
                  = 1 + sum_list (map length (take i ?strs))" if i: "i \<le> length glyphs" for i
    proof -
      from i len have i': "i \<le> length ?strs" by simp
      have "Index_offset_at (drop ?cso (written c)) i
              = 1 + sum_list (take i (map length ?strs))"
        unfolding out by (rule Index_offset_at_bytes [OF n' w256 fits i'])
      moreover have "drop (?cso + Index_min_size + ?w * i) (written c)
          = drop (Index_min_size + ?w * i) (drop ?cso (written c))"
        by (simp add: ac_simps)
      ultimately show ?thesis
        by (simp only: Index_offset_at_def osz take_map)
    qed
    have sect: "take ?sz (drop ?cso (written c)) = Index_bytes ?w ?strs"
      unfolding out using lb by simp
    have "length (drop ?cso (written c)) \<ge> ?sz"
      unfolding out using lb by simp
    then have le: "privateDictsOffset (offsets plan) \<le> length (written c)"
      unfolding pdo by (simp add: Index_min_size_def)
    have sect': "take ?sz (drop ?cso (written c))
           = be_bytes 4 (length glyphs) @ be_bytes 1 ?w
             @ Index_offsets ?w 1 (map length ?strs) @ concat ?strs"
      unfolding sect by (simp add: Index_bytes_def len)
    from osz offs le sect' show ?thesis by blast
  qed
  from strs w1 w4 fits least pdo wrote show ?thesis by blast
qed

theorem C9_charstrings_offsize_and_size_witness:
  "create example_acc [2, 3] = Some example_plan
   \<and> length [2 :: nat, 3] < 2 ^ 32
   \<and> sum_list (map (\<lambda>g. length (vec_at [] (charStrings example_acc) g)) [2, 3]) + 1 < 2 ^ 32
   \<and> subset_charstrings example_plan = [[3, 3, 3], [4, 4, 4, 4]]
   \<and> (1::nat) \<le> 1
   \<and> sum_list (map length (subset_charstrings example_plan)) + 1 < 256 ^ (1::nat)
   \<and> charStringsOffSize (offsets example_plan) = 1
   \<and> privateDictsOffset (offsets example_plan) = 61 + (5 + 1 * 3 + 7)
   \<and> write_cff2 example_plan example_acc [2, 3] 88
       = Written \<lparr>written = example_output, room = 88\<rparr>
   \<and> (2 :: nat) \<le> length [2 :: nat, 3]
   \<and> Index_offSize (drop 61 example_output) = 1
   \<and> be_val (take 1 (drop (61 + 5 + 1 * 2) example_output)) = 1 + (3 + 4)
   \<and> take (5 + 1 * 3 + 7) (drop 61 example_output)
       = [0, 0, 0, 2, 1, 1, 4, 8, 3, 3, 3, 4, 4, 4, 4]"
proof -
  have n: "length [2 :: nat, 3] < 2 ^ 32" by simp
  have d: "sum_list (map (\<lambda>g. length (vec_at [] (charStrings example_acc) g)) [2, 3]) + 1
      < 2 ^ 32"
    by (simp add: vec_at_def example_acc_def)
  have i: "(2 :: nat) \<le> length [2 :: nat, 3]" by simp
  note t = C9_charstrings_offsize_and_size [OF example_create n d]
  have s: "subset_charstrings example_plan = [[3, 3, 3], [4, 4, 4, 4]]"
    by (simp add: example_plan_def)
  have cso: "charStringsOffset (offsets example_plan) = 61" by (simp add: example_plan_def)
  have h: "sum_list (map length (subset_charstrings example_plan)) + 1 < 256 ^ (1::nat)"
    by (simp add: s)
  from t h have "charStringsOffSize (offsets example_plan) \<le> 1" by blast
  moreover from t have "1 \<le> charStringsOffSize (offsets example_plan)" by blast
  ultimately have w: "charStringsOffSize (offsets example_plan) = 1" by simp
  from t have "privateDictsOffset (offsets example_plan)
          = charStringsOffset (offsets example_plan)
            + (Index_min_size
               + Index_calculate_offset_array_size (charStringsOffSize (offsets example_plan))
                   (length [2::nat, 3])
               + sum_list (map length (subset_charstrings example_plan)))" by blast
  then have p: "privateDictsOffset (offsets example_plan) = 61 + (5 + 1 * 3 + 7)"
    by (simp add: w s cso Index_min_size_def Index_calculate_offset_array_size_def)
  from t example_write
  have "Index_offSize (drop (charStringsOffset (offsets example_plan))
                 (written \<lparr>written = example_output, room = 88\<rparr>))
         = charStringsOffSize (offsets example_plan)" by blast
  then have o: "Index_offSize (drop 61 example_output) = 1" by (simp add: w cso)
  from t example_write i
  have "be_val (take (charStringsOffSize (offsets example_plan))
                    (drop (charStringsOffset (offsets example_plan) + Index_min_size
                           + charStringsOffSize (offsets example_plan) * 2)
                       (written \<lparr>written = example_output, room = 88\<rparr>)))
            = 1 + sum_list (map length (take 2 (subset_charstrings example_plan)))" by blast
  then have e: "be_val (take 1 (drop (61 + 5 + 1 * 2) example_output)) = 1 + (3 + 4)"
    by (simp add: w cso s Index_min_size_def)
  from t example_write
  have "take (Index_min_size
               + Index_calculate_offset_array_size (charStringsOffSize (offsets example_plan))
                   (length [2::nat, 3])
               + sum_list (map length (subset_charstrings example_plan)))
             (drop (charStringsOffset (offsets example_plan))
                (written \<lparr>written = example_output, room = 88\<rparr>))
         = be_bytes 4 (length [2::nat, 3]) @ be_bytes 1 (charStringsOffSize (offsets example_plan))
           @ Index_offsets (charStringsOffSize (offsets example_plan)) 1
               (map length (subset_charstrings example_plan))
           @ concat (subset_charstrings example_plan)" by blast
  then have b: "take (5 + 1 * 3 + 7) (drop 61 example_output)
       = [0, 0, 0, 2, 1, 1, 4, 8, 3, 3, 3, 4, 4, 4, 4]"
    by (simp add: w s cso Index_min_size_def Index_calculate_offset_array_size_def
        be_bytes_numeral)
  from example_create example_write n d i s h w o e p b show ?thesis by simp
qed

subsection \<open>Local subroutines\<close>

lemma and_then_not_Written:
  "(\<And>c. step c \<noteq> Written c1) \<Longrightarrow> and_then r step \<noteq> Written c1"
  by (cases r) (simp_all add: and_then_def)

lemma write_privateDicts_not_Written:
  "\<not> subrs_present acc \<Longrightarrow> write_privateDicts plan acc c \<noteq> Written c1"
  by (simp add: write_privateDicts_def assert_head_def and_then_def or_fail_def
      subrs_present_def write_privateDict_loop_None comp_def map_nth)

lemma write_cff2_not_Written:
  assumes "\<not> subrs_present acc"
  shows "write_cff2 plan acc glyphs dest_sz \<noteq> Written c1"
proof -
  have "write_sections plan acc glyphs
      = [write_header plan, write_topDict plan acc, write_globalSubrs plan acc,
         write_varStore plan acc, write_FDSelect plan acc glyphs, write_FDArray plan acc,
         write_CharStrings plan] @ [write_privateDicts plan acc]"
    by (simp add: write_sections_def)
  then show ?thesis
    unfolding write_cff2_def
    by (simp only: run_sections_snoc)
       (rule and_then_not_Written, rule write_privateDicts_not_Written [OF assms])
qed

lemma subrs_present_nth:
  "subrs_present acc \<longleftrightarrow>
     (\<forall>j<length (privateDicts acc).
        subrsOffset (privateDicts acc ! j) = 0 \<or> localSubrs (privateDicts acc ! j) \<noteq> None)"
  by (simp add: subrs_present_def list_all_length)

text \<open>
  C10. When some private dict has a nonzero local-subroutine offset and a null local
  subroutine index, the writer never returns a table, whatever plan it is given, and on
  the plan \<open>create\<close> made for that source it returns \<open>false\<close>. When the writer succeeds,
  the private-dict block consists, for each private dict in order, of the transcoded
  private dict followed by its local subroutine index exactly when its
  \<open>subrsOffset\<close> is not zero, and every such index is present.
\<close>

theorem C10_null_local_subrs_fails:
  "(j < length (privateDicts acc) \<and> subrsOffset (privateDicts acc ! j) \<noteq> 0
      \<and> localSubrs (privateDicts acc ! j) = None \<longrightarrow>
      (\<forall>c1. write_cff2 any_plan acc glyphs dest_sz \<noteq> Written c1)
      \<and> (create acc glyphs = Some plan \<longrightarrow> write_cff2 plan acc glyphs dest_sz = WriteFailed))
   \<and> (create acc glyphs = Some plan \<and> write_cff2 plan acc glyphs dest_sz = Written c \<longrightarrow>
        drop (privateDictsOffset (offsets plan)) (written c)
          = concat (map (\<lambda>k. Dict_bytes CFF2PrivateDict_op_bytes
                                (pd_opstrs (privateDicts acc ! k))
                                (size' (vec_at \<lparr>offset = 0, size' = 0\<rparr> (privateDictInfos plan) k))
                              @ (if subrsOffset (privateDicts acc ! k) \<noteq> 0
                                 then the (localSubrs (privateDicts acc ! k)) else []))
                      [0..<length (privateDicts acc)])
        \<and> (\<forall>k<length (privateDicts acc).
              subrsOffset (privateDicts acc ! k) \<noteq> 0
              \<longrightarrow> localSubrs (privateDicts acc ! k) \<noteq> None))"
proof -
  have a: "(\<forall>c1. write_cff2 any_plan acc glyphs dest_sz \<noteq> Written c1)
      \<and> (create acc glyphs = Some plan \<longrightarrow> write_cff2 plan acc glyphs dest_sz = WriteFailed)"
    if "j < length (privateDicts acc)" "subrsOffset (privateDicts acc ! j) \<noteq> 0"
      "localSubrs (privateDicts acc ! j) = None"
  proof -
    from that have n: "\<not> subrs_present acc" by (auto simp: subrs_present_nth)
    then show ?thesis
      by (auto simp: write_cff2_not_Written write_cff2_created)
  qed
  have b: "drop (privateDictsOffset (offsets plan)) (written c)
          = concat (map (\<lambda>k. Dict_bytes CFF2PrivateDict_op_bytes
                                (pd_opstrs (privateDicts acc ! k))
                                (size' (vec_at \<lparr>offset = 0, size' = 0\<rparr> (privateDictInfos plan) k))
                              @ (if subrsOffset (privateDicts acc ! k) \<noteq> 0
                                 then the (localSubrs (privateDicts acc ! k)) else []))
                      [0..<length (privateDicts acc)])
        \<and> (\<forall>k<length (privateDicts acc).
              subrsOffset (privateDicts acc ! k) \<noteq> 0
              \<longrightarrow> localSubrs (privateDicts acc ! k) \<noteq> None)"
    if cr: "create acc glyphs = Some plan" and wr: "write_cff2 plan acc glyphs dest_sz = Written c"
  proof -
    note w = write_cff2_WrittenD [OF cr wr]
    from w(2) have p: "\<forall>k<length (privateDicts acc).
        subrsOffset (privateDicts acc ! k) = 0 \<or> localSubrs (privateDicts acc ! k) \<noteq> None"
      by (simp add: subrs_present_nth)
    have "drop (privateDictsOffset (offsets plan)) (written c) = privateDicts_bytes plan acc"
      by (simp add: w(1) table_bytes_from_privateDicts [OF cr])
    also have "\<dots> = concat (map (\<lambda>k. Dict_bytes CFF2PrivateDict_op_bytes
                                (pd_opstrs (privateDicts acc ! k))
                                (size' (vec_at \<lparr>offset = 0, size' = 0\<rparr> (privateDictInfos plan) k))
                              @ (if subrsOffset (privateDicts acc ! k) \<noteq> 0
                                 then the (localSubrs (privateDicts acc ! k)) else []))
                      [0..<length (privateDicts acc)])"
      unfolding privateDicts_bytes_def
      by (rule arg_cong [where f = concat], rule map_cong)
         (use p in \<open>auto simp: privateDict_pair_bytes_def section_bytes_def\<close>)
    finally show ?thesis using p by auto
  qed
  from a b show ?thesis by blast
qed

lemma example_create_null_subrs: "create example_acc_null_subrs [2, 3] \<noteq> None"
  by (simp add: eval_defs example_acc_null_subrs_def example_acc_def)

theorem C10_null_local_subrs_fails_witness:
  "(0 :: nat) < length (privateDicts example_acc_null_subrs)
   \<and> subrsOffset (privateDicts example_acc_null_subrs ! 0) \<noteq> 0
   \<and> localSubrs (privateDicts example_acc_null_subrs ! 0) = None
   \<and> create example_acc_null_subrs [2, 3] \<noteq> None
   \<and> write_cff2 (the (create example_acc_null_subrs [2, 3])) example_acc_null_subrs [2, 3] 88
       = WriteFailed
   \<and> write_cff2 example_plan example_acc_null_subrs [2, 3] 88
       \<noteq> Written \<lparr>written = example_output, room = 88\<rparr>
   \<and> create example_acc [2, 3] = Some example_plan
   \<and> write_cff2 example_plan example_acc [2, 3] 88
       = Written \<lparr>written = example_output, room = 88\<rparr>
   \<and> drop (privateDictsOffset (offsets example_plan)) example_output
       = [139, 6, 28, 0, 6, 19] @ [0, 0, 0, 0] @ [140, 6]
   \<and> localSubrs (privateDicts example_acc ! 0) \<noteq> None"
proof -
  have h: "(0 :: nat) < length (privateDicts example_acc_null_subrs)"
    "subrsOffset (privateDicts example_acc_null_subrs ! 0) \<noteq> 0"
    "localSubrs (privateDicts example_acc_null_subrs ! 0) = None"
    by (simp_all add: example_acc_null_subrs_def example_acc_def)
  from example_create_null_subrs obtain p where
    p: "create example_acc_null_subrs [2, 3] = Some p" by blast
  from C10_null_local_subrs_fails [of 0 example_acc_null_subrs example_plan "[2, 3]" 88 p] h p
  have 1: "write_cff2 p example_acc_null_subrs [2, 3] 88 = WriteFailed"
    and 2: "write_cff2 example_plan example_acc_null_subrs [2, 3] 88
       \<noteq> Written \<lparr>written = example_output, room = 88\<rparr>"
    by blast+
  have k: "(0 :: nat) < length (privateDicts example_acc)"
    "subrsOffset (privateDicts example_acc ! 0) \<noteq> 0"
    by (simp_all add: example_acc_def)
  from C10_null_local_subrs_fails [of _ example_acc _ "[2, 3]" 88 example_plan
      "\<lparr>written = example_output, room = 88\<rparr>"] example_create example_write k
  have 3: "localSubrs (privateDicts example_acc ! 0) \<noteq> None" by auto
  have 4: "drop (privateDictsOffset (offsets example_plan)) example_output
       = [139, 6, 28, 0, 6, 19] @ [0, 0, 0, 0] @ [140, 6]"
    by (simp add: example_plan_def example_output_def)
  from h p 1 2 example_create example_write 3 4 show ?thesis by simp
qed

subsection \<open>The driver\<close>

lemma hb_subset_cff2_impl_cases:
  "create acc glyphs = None \<Longrightarrow> hb_subset_cff2_impl acc glyphs calloc_ok = Failure"
  "create acc glyphs = Some plan \<Longrightarrow>
     write_cff2 plan acc glyphs (final_size plan) = WriteFailed \<Longrightarrow>
     hb_subset_cff2_impl acc glyphs True = Failure"
  "hb_subset_cff2_impl acc glyphs True = Success out \<Longrightarrow>
     \<exists>plan c. create acc glyphs = Some plan
       \<and> write_cff2 plan acc glyphs (final_size plan) = Written c
       \<and> out = written c @ replicate (final_size plan - head c) 0"
  "create acc glyphs = Some plan \<Longrightarrow> hb_subset_cff2_impl acc glyphs False = Null_buffer_written"
  by (auto simp: hb_subset_cff2_impl_def get_final_size_def Let_def
      split: option.splits write_result.splits)

text \<open>
  C8, at the failing input. With the example source, glyphs 2 and 3 and a failed
  \<open>calloc\<close>, the driver does not return \<open>false\<close>: the writer is run on the null buffer.
\<close>

theorem C8_calloc_result_unchecked:
  "hb_subset_cff2_impl example_acc [2, 3] False = Null_buffer_written"
  by (rule hb_subset_cff2_impl_cases(4) [OF example_create])

subsection \<open>Placement of the private dicts\<close>

lemma create_privateDicts_infos:
  "privateDictInfos (create_privateDicts pds p)
     = privateDictInfos p @ privateDict_infos_from (final_size p) pds"
  by (induction pds arbitrary: p) (simp_all add: Let_def PrivateDict_size_def add.assoc)

lemma length_privateDict_infos_from [simp]:
  "length (privateDict_infos_from off pds) = length pds"
  by (induction pds arbitrary: off) simp_all


lemma create_privateDictInfos_from:
  assumes c: "create acc glyphs = Some plan" and n: "fdArray_count acc = length (privateDicts acc)"
  shows "privateDictInfos plan
           = privateDict_infos_from (privateDictsOffset (offsets plan)) (privateDicts acc)"
proof -
  let ?p0 = "create_varStore acc (create_top acc cff2_subset_plan_init)"
  from c obtain p where
    sel: "create_FDSelect acc glyphs ?p0 = Some p"
    and plan: "plan = create_privateDicts
           (map (vec_at Null_PrivateDictValues (privateDicts acc)) [0..<orig_fdcount p])
           ((create_CharStrings acc glyphs (create_FDArray acc p))
              \<lparr>offsets := (offsets (create_CharStrings acc glyphs (create_FDArray acc p)))
                  \<lparr>privateDictsOffset := final_size (create_CharStrings acc glyphs (create_FDArray acc p))\<rparr>\<rparr>)"
    by (rule create_SomeD)
  note s = create_FDSelect_common [OF sel]
  have orig: "orig_fdcount p = length (privateDicts acc)"
    by (simp add: s create_varStore_simps create_top_simps n)
  have pds: "map (vec_at Null_PrivateDictValues (privateDicts acc)) [0..<length (privateDicts acc)]
      = privateDicts acc"
    by (rule nth_equalityI) (simp_all add: vec_at_def)
  show ?thesis
    by (simp add: plan create_privateDicts_infos orig pds create_CharStrings_simps
        create_FDArray_simps s create_varStore_simps create_top_simps)
qed


lemma privateDicts_bytes_nth:
  "privateDicts_bytes plan acc
     = concat (map (\<lambda>i. privateDict_pair_bytes (privateDicts acc ! i)
                           (size' (vec_at \<lparr>offset = 0, size' = 0\<rparr> (privateDictInfos plan) i)))
                 [0..<length (privateDicts acc)])"
  by (simp add: privateDicts_bytes_def)

text \<open>
  C6. After a successful \<open>create\<close> and a successful write on a source whose private
  dicts are parallel to its font dicts, the plan holds one placement per original font
  dict, the output from \<open>privateDictsOffset\<close> on is, for each original font-dict index
  in order and whatever \<open>fdmap\<close> says of it, the transcoded private dict followed by
  its local subroutine index when its local-subroutine offset is not zero, with nothing
  between or after them, and
  \<open>final_size\<close> is \<open>privateDictsOffset\<close> plus the sizes of every private dict and
  every local subroutine index.
\<close>

theorem C6_private_dict_block_per_original_slot:
  "create acc glyphs = Some plan \<Longrightarrow>
   write_cff2 plan acc glyphs dest_sz = Written c \<Longrightarrow>
   fdArray_count acc = length (privateDicts acc) \<Longrightarrow>
     length (privateDictInfos plan) = orig_fdcount plan
     \<and> orig_fdcount plan = length (privateDicts acc)
     \<and> drop (privateDictsOffset (offsets plan)) (written c)
         = concat (map (\<lambda>i. privateDict_pair_bytes (privateDicts acc ! i)
                                (size' (privateDictInfos plan ! i)))
                     [0..<orig_fdcount plan])
     \<and> final_size plan
         = privateDictsOffset (offsets plan)
           + sum_list (map (\<lambda>pd. PrivateDict_size pd + get_size (localSubrs pd))
                         (privateDicts acc))"
proof -
  assume cr: "create acc glyphs = Some plan"
    and wr: "write_cff2 plan acc glyphs dest_sz = Written c"
    and n: "fdArray_count acc = length (privateDicts acc)"
  note f = create_fields [OF cr]
  note w = write_cff2_WrittenD [OF cr wr]
  have infos: "privateDictInfos plan
      = privateDict_infos_from (privateDictsOffset (offsets plan)) (privateDicts acc)"
    by (rule create_privateDictInfos_from [OF cr n])
  have 1: "length (privateDictInfos plan) = orig_fdcount plan"
    by (simp add: infos f(1) n)
  have 2: "orig_fdcount plan = length (privateDicts acc)"
    by (simp add: f(1) n)
  have pds: "map (vec_at Null_PrivateDictValues (privateDicts acc)) [0..<length (privateDicts acc)]
      = privateDicts acc"
    by (rule nth_equalityI) (simp_all add: vec_at_def)
  have "drop (privateDictsOffset (offsets plan)) (written c) = privateDicts_bytes plan acc"
    by (simp add: w(1) table_bytes_from_privateDicts [OF cr])
  also have "\<dots> = concat (map (\<lambda>i. privateDict_pair_bytes (privateDicts acc ! i)
                                (size' (privateDictInfos plan ! i)))
                     [0..<orig_fdcount plan])"
    unfolding privateDicts_bytes_nth 2
    by (rule arg_cong [where f = concat], rule map_cong) (use 1 2 in \<open>simp_all add: vec_at_def\<close>)
  finally have 3: "drop (privateDictsOffset (offsets plan)) (written c)
         = concat (map (\<lambda>i. privateDict_pair_bytes (privateDicts acc ! i)
                                (size' (privateDictInfos plan ! i)))
                     [0..<orig_fdcount plan])" .
  have 4: "final_size plan
         = privateDictsOffset (offsets plan)
           + sum_list (map (\<lambda>pd. PrivateDict_size pd + get_size (localSubrs pd))
                         (privateDicts acc))"
    using f(12) by (simp only: n pds)
  from 1 2 3 4 show ?thesis by blast
qed

theorem C6_private_dict_block_per_original_slot_witness:
  "create example_acc [2, 3] = Some example_plan
   \<and> write_cff2 example_plan example_acc [2, 3] 88
       = Written \<lparr>written = example_output, room = 88\<rparr>
   \<and> fdArray_count example_acc = length (privateDicts example_acc)
   \<and> fdmap example_plan ! 0 = HB_SET_VALUE_INVALID
   \<and> length (privateDictInfos example_plan) = 2
   \<and> drop (privateDictsOffset (offsets example_plan)) example_output
       = concat (map (\<lambda>i. privateDict_pair_bytes (privateDicts example_acc ! i)
                              (size' (privateDictInfos example_plan ! i))) [0..<2])
   \<and> final_size example_plan = 76 + ((6 + 4) + (2 + 0))"
proof -
  have n: "fdArray_count example_acc = length (privateDicts example_acc)"
    by (simp add: example_acc_def)
  have m: "fdmap example_plan ! 0 = HB_SET_VALUE_INVALID"
    by (simp add: example_plan_def HB_SET_VALUE_INVALID_def)
  have o: "orig_fdcount example_plan = 2" by (simp add: example_plan_def)
  note t = C6_private_dict_block_per_original_slot [OF example_create example_write n]
  from t o have 1: "length (privateDictInfos example_plan) = 2" by simp
  from t o have 2: "drop (privateDictsOffset (offsets example_plan)) example_output
       = concat (map (\<lambda>i. privateDict_pair_bytes (privateDicts example_acc ! i)
                              (size' (privateDictInfos example_plan ! i))) [0..<2])"
    by simp
  from t have "final_size example_plan
         = privateDictsOffset (offsets example_plan)
           + sum_list (map (\<lambda>pd. PrivateDict_size pd + get_size (localSubrs pd))
                         (privateDicts example_acc))" by blast
  moreover have "privateDictsOffset (offsets example_plan)
           + sum_list (map (\<lambda>pd. PrivateDict_size pd + get_size (localSubrs pd))
                         (privateDicts example_acc)) = 76 + ((6 + 4) + (2 + 0))"
    by (simp add: eval_defs PrivateDict_size_def example_acc_def example_plan_def)
  ultimately have 3: "final_size example_plan = 76 + ((6 + 4) + (2 + 0))" by simp
  from example_create example_write n m 1 2 3 show ?thesis by blast
qed



subsection \<open>The writer fills the planned buffer\<close>



subsection \<open>The \<open>Subrs\<close> operator of a written private dict\<close>




end
